theory Spec2Isabelle
  imports Main
begin

text \<open>
  A shallow embedding of the agent loop of the Gemini CLI and of its two-agent layer, and
  the properties claimed of them.

  \<^item> The tool-call scheduler (\<open>CoreToolScheduler\<close>), the Turn (\<open>Turn\<close>) and the driver loop
    (\<open>GeminiClient.sendMessageStream\<close>) are embedded from the code of
    \<open>agent_mode_analysis.md\<close>.
  \<^item> The two agents (\<open>MainAgent\<close>, \<open>ToolsAgent\<close>) and the orchestrator with its buses
    (\<open>AgentOrchestrator\<close>, \<open>AgentCommunicationBus\<close>) are embedded from their classes.

  Objects are records and every method takes the object and returns it updated. What a
  method throws is a value: a method that can throw returns \<open>thrown + 'a\<close>, with \<open>Inl\<close>
  for the exception. Whatever the code reads from outside (the backend, the clock, the
  random source, the tools, the abort signal) is a field of an environment record, most
  often a function of the number of earlier reads, so that a statement about every
  environment covers every behaviour of the outside. Promise callbacks, which the
  event loop runs after the call that registered them has returned, are functions of
  their own, applied in the order the event loop delivers them; an \<open>async\<close> event
  listener runs up to its first \<open>await\<close> inside the call that emits the event, and the
  rest of it is resumed later. Fields marked as ghost fields record what the code did (which calls it made);
  the code does not read them.
\<close>

section \<open>Values that cross a \<open>throw\<close>\<close>

text \<open>
  JavaScript may throw any value. The handlers of this repository distinguish only
  \<open>error instanceof Error\<close> (whose \<open>message\<close> they read) from everything else.
\<close>

datatype thrown = ErrorObj string | NonError

section \<open>The tool-call scheduler (\<open>CoreToolScheduler\<close>)\<close>

datatype status =
  Validating | Scheduled | AwaitingApproval | Executing | Success | Error | Cancelled

datatype ApprovalMode = YOLO | DEFAULT

record ToolCallRequestInfo =
  callId :: string
  name :: string
  args :: "(string \<times> string) list"
  isClientInitiated :: bool

record ToolResult =
  llmContent :: string
  returnDisplay :: string

text \<open>
  A tool is an external collaborator. Only its confirmation hook is called while a batch
  is taken in: it is given the arguments and the signal (here the signal's \<open>aborted\<close>
  flag) and throws, returns confirmation details, or returns \<open>false\<close>. Its \<open>execute\<close>
  returns a promise; how that promise settles is an event delivered later.
\<close>

record Tool =
  shouldConfirmExecute :: "(string \<times> string) list \<Rightarrow> bool \<Rightarrow> thrown + string option"

datatype ExecuteOutcome = Resolved ToolResult | Rejected thrown

text \<open>
  \<open>convertToFunctionResponse\<close> and \<open>createErrorResponse\<close> are imported helpers; their
  results are kept as the constructor applied to the arguments they are given.
\<close>

datatype FunctionResponse = ConvertToFunctionResponse string string string

datatype ToolCallResponseInfo =
  ResponseInfo string FunctionResponse string "thrown option"
  | CreateErrorResponse ToolCallRequestInfo thrown

datatype auxiliary =
  NoAux | AuxResponse ToolCallResponseInfo | AuxConfirmation string | AuxReason string

record ToolCall =
  status :: status
  request :: ToolCallRequestInfo
  tool :: "Tool option"
  outcome :: auxiliary
  startTime :: "nat option"
  durationMs :: "nat option"

text \<open>
  The scheduler object. \<open>executeInvocations\<close> is a ghost field: it lists, in order, the
  tool calls on which \<open>toolCall.tool.execute(...)\<close> has been invoked.
\<close>

record CoreToolScheduler =
  toolCalls :: "ToolCall list"
  approvalMode :: ApprovalMode
  toolRegistry :: "string \<Rightarrow> Tool option"
  executeInvocations :: "ToolCall list"

definition isTerminal :: "status \<Rightarrow> bool" where
  "isTerminal st = (st = Success \<or> st = Error \<or> st = Cancelled)"

text \<open>
  Modelled from the spec: \<open>isRunning\<close> is called by \<open>schedule\<close> but its body is not among
  the sources. The spec's precondition of \<open>schedule\<close> is that the scheduler has no active
  (non-terminal) batch, so \<open>isRunning\<close> holds when some record is not in a terminal state.
\<close>

definition isRunning :: "CoreToolScheduler \<Rightarrow> bool" where
  "isRunning s = list_ex (\<lambda>c. \<not> isTerminal (status c)) (toolCalls s)"

text \<open>
  Modelled from the spec: \<open>setStatusInternal\<close> is called throughout but its body is not
  among the sources. By the spec the scheduler is the only mutator of a record's state and
  a record in a terminal state never transitions again: the records carrying the given
  call id that are not terminal take the new status and its auxiliary data; the list is
  rebuilt, the records already handed out are not changed in place.
\<close>

definition setStatusInternal ::
  "string \<Rightarrow> status \<Rightarrow> auxiliary \<Rightarrow> CoreToolScheduler \<Rightarrow> CoreToolScheduler" where
  "setStatusInternal targetCallId newStatus auxiliaryData s =
     s\<lparr>toolCalls :=
         map (\<lambda>currentCall.
               if callId (request currentCall) \<noteq> targetCallId \<or> isTerminal (status currentCall)
               then currentCall
               else currentCall\<lparr>status := newStatus, outcome := auxiliaryData\<rparr>)
             (toolCalls s)\<rparr>"

datatype ScheduleRequest = Single ToolCallRequestInfo | Many "ToolCallRequestInfo list"

fun requestsToProcess :: "ScheduleRequest \<Rightarrow> ToolCallRequestInfo list" where
  "requestsToProcess (Many rs) = rs"
| "requestsToProcess (Single r) = [r]"

definition notFoundMessage :: "string \<Rightarrow> string" where
  "notFoundMessage n = ''Tool '' @ [CHR 0x22] @ n @ [CHR 0x22] @ '' not found''"

text \<open>
  The body of \<open>requestsToProcess.map\<close>: \<open>now i\<close> is what \<open>Date.now()\<close> returns while the
  \<open>i\<close>-th request of the batch is mapped.
\<close>

definition newToolCall ::
  "(string \<Rightarrow> Tool option) \<Rightarrow> (nat \<Rightarrow> nat) \<Rightarrow> nat \<times> ToolCallRequestInfo \<Rightarrow> ToolCall" where
  "newToolCall registry now ir =
     (case ir of (i, reqInfo) \<Rightarrow>
       (case registry (name reqInfo) of
          None \<Rightarrow>
            \<lparr>status = Error, request = reqInfo, tool = None,
             outcome = AuxResponse
               (CreateErrorResponse reqInfo (ErrorObj (notFoundMessage (name reqInfo)))),
             startTime = None, durationMs = Some 0\<rparr>
        | Some toolInstance \<Rightarrow>
            \<lparr>status = Validating, request = reqInfo, tool = Some toolInstance,
             outcome = NoAux, startTime = Some (now i), durationMs = None\<rparr>))"

definition typeErrorUndefined :: thrown where
  "typeErrorUndefined = ErrorObj ''Cannot read properties of undefined''"

text \<open>The body of the loop \<open>for (const toolCall of newToolCalls)\<close>.\<close>

definition processToolCall ::
  "bool \<Rightarrow> ToolCall \<Rightarrow> CoreToolScheduler \<Rightarrow> CoreToolScheduler" where
  "processToolCall aborted toolCall s =
     (if status toolCall \<noteq> Validating then s
      else let reqInfo = request toolCall in
        if approvalMode s = YOLO then setStatusInternal (callId reqInfo) Scheduled NoAux s
        else (case tool toolCall of
                None \<Rightarrow>
                  setStatusInternal (callId reqInfo) Error
                    (AuxResponse (CreateErrorResponse reqInfo typeErrorUndefined)) s
              | Some toolInstance \<Rightarrow>
                  (case shouldConfirmExecute toolInstance (args reqInfo) aborted of
                     Inl error \<Rightarrow>
                       setStatusInternal (callId reqInfo) Error
                         (AuxResponse (CreateErrorResponse reqInfo error)) s
                   | Inr (Some confirmationDetails) \<Rightarrow>
                       setStatusInternal (callId reqInfo) AwaitingApproval
                         (AuxConfirmation confirmationDetails) s
                   | Inr None \<Rightarrow> setStatusInternal (callId reqInfo) Scheduled NoAux s)))"

text \<open>
  \<open>callsToExecute.forEach\<close>: each call is marked \<open>executing\<close> and its tool's \<open>execute\<close>
  is invoked without waiting for it. Reading \<open>execute\<close> off a missing tool throws, which
  ends the loop and leaves \<open>attemptExecutionOfScheduledCalls\<close> by the exception.
\<close>

fun startExecutions :: "ToolCall list \<Rightarrow> CoreToolScheduler \<Rightarrow> thrown + CoreToolScheduler" where
  "startExecutions [] s = Inr s"
| "startExecutions (toolCall # rest) s =
     (if status toolCall \<noteq> Scheduled then startExecutions rest s
      else let s1 = setStatusInternal (callId (request toolCall)) Executing NoAux s in
        (case tool toolCall of
           None \<Rightarrow> Inl typeErrorUndefined
         | Some t \<Rightarrow>
             startExecutions rest
               (s1\<lparr>executeInvocations := executeInvocations s1 @ [toolCall]\<rparr>)))"

definition attemptExecutionOfScheduledCalls ::
  "CoreToolScheduler \<Rightarrow> thrown + CoreToolScheduler" where
  "attemptExecutionOfScheduledCalls s =
     startExecutions (filter (\<lambda>call. status call = Scheduled) (toolCalls s)) s"

definition alreadyRunning :: thrown where
  "alreadyRunning =
     ErrorObj ''Cannot schedule new tool calls while other tool calls are actively running''"

definition schedule ::
  "(nat \<Rightarrow> nat) \<Rightarrow> bool \<Rightarrow> ScheduleRequest \<Rightarrow> CoreToolScheduler \<Rightarrow> thrown + CoreToolScheduler" where
  "schedule now aborted req s =
     (if isRunning s then Inl alreadyRunning
      else let newToolCalls =
                 map (newToolCall (toolRegistry s) now) (enumerate 0 (requestsToProcess req));
               s1 = s\<lparr>toolCalls := toolCalls s @ newToolCalls\<rparr>;
               s2 = fold (processToolCall aborted) newToolCalls s1
           in attemptExecutionOfScheduledCalls s2)"

text \<open>
  The two callbacks attached to the promise of \<open>execute\<close>. \<open>aborted\<close> is the value of
  \<open>signal.aborted\<close> when the callback runs.
\<close>

definition onExecuteSettled ::
  "bool \<Rightarrow> ToolCall \<Rightarrow> ExecuteOutcome \<Rightarrow> CoreToolScheduler \<Rightarrow> CoreToolScheduler" where
  "onExecuteSettled aborted toolCall result s =
     (let cid = callId (request toolCall); toolName = name (request toolCall) in
      case result of
        Resolved toolResult \<Rightarrow>
          if aborted
          then setStatusInternal cid Cancelled (AuxReason ''User cancelled tool execution.'') s
          else setStatusInternal cid Success
                 (AuxResponse
                    (ResponseInfo cid
                       (ConvertToFunctionResponse toolName cid (llmContent toolResult))
                       (returnDisplay toolResult) None)) s
      | Rejected executionError \<Rightarrow>
          setStatusInternal cid Error
            (AuxResponse (CreateErrorResponse (request toolCall) executionError)) s)"

text \<open>
  What happens after \<open>schedule\<close> has returned, in the order the event loop delivers it:
  the caller aborts the signal, or the promise of the \<open>k\<close>-th invocation of \<open>execute\<close>
  settles.
\<close>

datatype event = Abort | Settle nat ExecuteOutcome

fun runEvents :: "bool \<Rightarrow> event list \<Rightarrow> CoreToolScheduler \<Rightarrow> CoreToolScheduler" where
  "runEvents aborted [] s = s"
| "runEvents aborted (Abort # es) s = runEvents True es s"
| "runEvents aborted (Settle k result # es) s =
     (if k < length (executeInvocations s)
      then runEvents aborted es (onExecuteSettled aborted (executeInvocations s ! k) result s)
      else runEvents aborted es s)"

text \<open>
  For stating what cancellation does: the first settlement, in a sequence of events, of an
  invocation of \<open>execute\<close> made for the call id \<open>cid\<close>.
\<close>

fun settlementFor :: "string \<Rightarrow> ToolCall list \<Rightarrow> event list \<Rightarrow> ExecuteOutcome option" where
  "settlementFor cid invoked [] = None"
| "settlementFor cid invoked (Abort # es) = settlementFor cid invoked es"
| "settlementFor cid invoked (Settle k result # es) =
     (if k < length invoked \<and> callId (request (invoked ! k)) = cid then Some result
      else settlementFor cid invoked es)"

text \<open>A record that can still change state holds the tool the registry gave for its name.\<close>

definition resolved :: "(string \<Rightarrow> Tool option) \<Rightarrow> ToolCall \<Rightarrow> bool" where
  "resolved registry c =
     (isTerminal (status c) \<or> (tool c \<noteq> None \<and> registry (name (request c)) = tool c))"

text \<open>A small scheduler to run the definitions on: one registered tool, auto-approval.\<close>

definition lsTool :: Tool where
  "lsTool = \<lparr>shouldConfirmExecute = (\<lambda>a ab. Inr None)\<rparr>"

definition lsRequest :: ToolCallRequestInfo where
  "lsRequest = \<lparr>callId = ''c1'', name = ''ls'', args = [], isClientInitiated = False\<rparr>"

definition catRequest :: ToolCallRequestInfo where
  "catRequest = \<lparr>callId = ''c2'', name = ''cat'', args = [], isClientInitiated = False\<rparr>"

definition lsRegistry :: "string \<Rightarrow> Tool option" where
  "lsRegistry n = (if n = ''ls'' then Some lsTool else None)"

definition clock7 :: "nat \<Rightarrow> nat" where
  "clock7 i = 7"

definition idleScheduler :: CoreToolScheduler where
  "idleScheduler =
     \<lparr>toolCalls = [], approvalMode = YOLO, toolRegistry = lsRegistry, executeInvocations = []\<rparr>"

definition lsScheduled :: ToolCall where
  "lsScheduled =
     \<lparr>status = Scheduled, request = lsRequest, tool = Some lsTool, outcome = NoAux,
      startTime = Some 7, durationMs = None\<rparr>"

definition busyScheduler :: CoreToolScheduler where
  "busyScheduler =
     \<lparr>toolCalls = [lsScheduled\<lparr>status := Executing\<rparr>], approvalMode = YOLO,
      toolRegistry = lsRegistry, executeInvocations = [lsScheduled]\<rparr>"

section \<open>The Turn (\<open>Turn.run\<close>, \<open>Turn.handlePendingFunctionCall\<close>)\<close>

text \<open>
  The backend's response chunk, with the optional fields the Turn reads. Strings are lists
  of code units below 256.
\<close>

record Part =
  partText :: "string option"
  thought :: bool

record Content =
  role :: string
  parts :: "Part list option"

record Candidate =
  content :: "Content option"

record FunctionCall =
  fcId :: "string option"
  fcName :: "string option"
  fcArgs :: "(string \<times> string) list option"

record GenerateContentResponse =
  candidates :: "Candidate list option"
  functionCalls :: "FunctionCall list option"

record ThoughtSummary =
  subject :: string
  description :: string

datatype ServerGeminiStreamEvent =
  ContentEvent string
  | ThoughtEvent ThoughtSummary
  | ToolCallRequestEvent ToolCallRequestInfo
  | UserCancelledEvent
  | ErrorEvent thrown
  | ChatCompressedEvent string

subsection \<open>Thought fragments: the bold-span pattern, \<open>replace\<close> and \<open>trim\<close>\<close>

text \<open>
  \<open>findMarker s\<close> splits \<open>s\<close> at the leftmost occurrence of the two-character marker: the
  text before it and the text after it.
\<close>

fun findMarker :: "string \<Rightarrow> (string \<times> string) option" where
  "findMarker (a # b # cs) =
     (if a = CHR ''*'' \<and> b = CHR ''*'' then Some ([], cs)
      else (case findMarker (b # cs) of
              None \<Rightarrow> None
            | Some (before, after) \<Rightarrow> Some (a # before, after)))"
| "findMarker cs = None"

text \<open>
  The first match in \<open>rawText\<close> of the pattern of \<open>Turn.run\<close> (two stars, a lazy group
  of any characters, two stars; flag \<open>s\<close>): the leftmost opening marker
  that is followed by a closing marker, and (the group being lazy, and \<open>.\<close> matching every
  character under the \<open>s\<close> flag) the nearest closing marker after it. When the leftmost
  marker has no closing marker, no later one has. The result is the text before the match,
  the captured group, and the text after the match.
\<close>

definition matchBold :: "string \<Rightarrow> (string \<times> string \<times> string) option" where
  "matchBold rawText =
     (case findMarker rawText of
        None \<Rightarrow> None
      | Some (before, rest) \<Rightarrow>
          (case findMarker rest of
             None \<Rightarrow> None
           | Some (captured, after) \<Rightarrow> Some (before, captured, after)))"

text \<open>The code units below 256 that \<open>String.prototype.trim\<close> strips.\<close>

definition isWhiteSpace :: "char \<Rightarrow> bool" where
  "isWhiteSpace c =
     (c = CHR 0x09 \<or> c = CHR 0x0A \<or> c = CHR 0x0B \<or> c = CHR 0x0C \<or> c = CHR 0x0D
      \<or> c = CHR 0x20 \<or> c = CHR 0xA0)"

definition trim :: "string \<Rightarrow> string" where
  "trim s = rev (dropWhile isWhiteSpace (rev (dropWhile isWhiteSpace s)))"

text \<open>
  The two lines of \<open>Turn.run\<close> that compute \<open>subject\<close> and \<open>description\<close> from
  \<open>rawText\<close>; \<open>replace\<close> with a non-global pattern removes the first match only.
\<close>

definition parseThought :: "string \<Rightarrow> ThoughtSummary" where
  "parseThought rawText =
     (let subjectStringMatches = matchBold rawText;
          subj = (case subjectStringMatches of
                    None \<Rightarrow> []
                  | Some (before, captured, after) \<Rightarrow> trim captured);
          descr = trim (case subjectStringMatches of
                          None \<Rightarrow> rawText
                        | Some (before, captured, after) \<Rightarrow> before @ after)
      in \<lparr>subject = subj, description = descr\<rparr>)"

text \<open>\<open>hasMarker s\<close>: the marker occurs somewhere in \<open>s\<close>.\<close>

definition hasMarker :: "string \<Rightarrow> bool" where
  "hasMarker s = (\<exists>u v. s = u @ ''**'' @ v)"

subsection \<open>Call identifiers\<close>

text \<open>The decimal rendering of a non-negative integer, as a template literal prints it.\<close>

definition digitChar :: "nat \<Rightarrow> char" where
  "digitChar d = ''0123456789'' ! d"

fun showNat :: "nat \<Rightarrow> string" where
  "showNat n = (if n < 10 then [digitChar n] else showNat (n div 10) @ [digitChar (n mod 10)])"

text \<open>
  What the Turn reads from its surroundings: \<open>getResponseText\<close> (an imported helper),
  and, for the \<open>k\<close>-th call identifier it generates, the value of \<open>Date.now()\<close> and the
  string \<open>Math.random().toString(16)\<close>.
\<close>

record TurnEnv =
  getResponseText :: "GenerateContentResponse \<Rightarrow> string option"
  dateNow :: "nat \<Rightarrow> nat"
  randomBase16 :: "nat \<Rightarrow> string"

text \<open>
  The Turn object. \<open>idDraws\<close> is a ghost field: the number of call identifiers generated
  so far.
\<close>

record Turn =
  pendingToolCalls :: "ToolCallRequestInfo list"
  debugResponses :: "GenerateContentResponse list"
  idDraws :: nat

definition newTurn :: Turn where
  "newTurn = \<lparr>pendingToolCalls = [], debugResponses = [], idDraws = 0\<rparr>"

definition generatedCallId :: "TurnEnv \<Rightarrow> nat \<Rightarrow> string option \<Rightarrow> string" where
  "generatedCallId env k fnName =
     (case fnName of None \<Rightarrow> ''undefined'' | Some n \<Rightarrow> n)
     @ ''-'' @ showNat (dateNow env k) @ ''-'' @ drop 2 (randomBase16 env k)"

definition handlePendingFunctionCall ::
  "TurnEnv \<Rightarrow> FunctionCall \<Rightarrow> Turn \<Rightarrow> ServerGeminiStreamEvent option \<times> Turn" where
  "handlePendingFunctionCall env fnCall turn =
     (let (cid, draws) =
            (case fcId fnCall of
               Some i \<Rightarrow> (i, idDraws turn)
             | None \<Rightarrow> (generatedCallId env (idDraws turn) (fcName fnCall), Suc (idDraws turn)));
          toolName = (case fcName fnCall of
                        None \<Rightarrow> ''undefined_tool_name''
                      | Some n \<Rightarrow> if n = [] then ''undefined_tool_name'' else n);
          toolArgs = (case fcArgs fnCall of None \<Rightarrow> [] | Some a \<Rightarrow> a);
          toolCallRequest =
            \<lparr>callId = cid, name = toolName, args = toolArgs, isClientInitiated = False\<rparr>
      in (Some (ToolCallRequestEvent toolCallRequest),
          turn\<lparr>pendingToolCalls := pendingToolCalls turn @ [toolCallRequest],
               idDraws := draws\<rparr>))"

subsection \<open>\<open>Turn.run\<close>\<close>

definition firstPart :: "GenerateContentResponse \<Rightarrow> Part option" where
  "firstPart resp =
     (case candidates resp of
        Some (c # cs) \<Rightarrow>
          (case content c of
             Some ct \<Rightarrow> (case parts ct of Some (p # ps) \<Rightarrow> Some p | _ \<Rightarrow> None)
           | None \<Rightarrow> None)
      | _ \<Rightarrow> None)"

text \<open>The loop \<open>for (const fnCall of functionCalls)\<close>.\<close>

fun handleFunctionCalls ::
  "TurnEnv \<Rightarrow> FunctionCall list \<Rightarrow> Turn \<Rightarrow> ServerGeminiStreamEvent list \<times> Turn" where
  "handleFunctionCalls env [] turn = ([], turn)"
| "handleFunctionCalls env (fnCall # rest) turn =
     (case handlePendingFunctionCall env fnCall turn of
        (ev, turn1) \<Rightarrow>
          (case handleFunctionCalls env rest turn1 of
             (evs, turn2) \<Rightarrow> ((case ev of None \<Rightarrow> [] | Some e \<Rightarrow> [e]) @ evs, turn2)))"

text \<open>
  The loop \<open>for await (const resp of responseStream)\<close>. \<open>aborted i\<close> is the value of
  \<open>signal.aborted\<close> when the chunk with index \<open>i\<close> arrives.
\<close>

fun processChunks ::
  "TurnEnv \<Rightarrow> (nat \<Rightarrow> bool) \<Rightarrow> nat \<Rightarrow> GenerateContentResponse list \<Rightarrow> Turn
     \<Rightarrow> ServerGeminiStreamEvent list \<times> bool \<times> Turn" where
  "processChunks env aborted i [] turn = ([], False, turn)"
| "processChunks env aborted i (resp # rest) turn =
     (if aborted i then ([UserCancelledEvent], True, turn)
      else let turn1 = turn\<lparr>debugResponses := debugResponses turn @ [resp]\<rparr> in
        (case (case firstPart resp of
                 Some thoughtPart \<Rightarrow> if thought thoughtPart then Some thoughtPart else None
               | None \<Rightarrow> None) of
           Some thoughtPart \<Rightarrow>
             (let rawText = (case partText thoughtPart of None \<Rightarrow> [] | Some t \<Rightarrow> t) in
              case processChunks env aborted (Suc i) rest turn1 of
                (evs, returned, turn2) \<Rightarrow> (ThoughtEvent (parseThought rawText) # evs, returned, turn2))
         | None \<Rightarrow>
             (let textEvents = (case getResponseText env resp of
                                  None \<Rightarrow> []
                                | Some t \<Rightarrow> if t = [] then [] else [ContentEvent t]);
                  fnCalls = (case functionCalls resp of None \<Rightarrow> [] | Some fs \<Rightarrow> fs)
              in case handleFunctionCalls env fnCalls turn1 of
                   (callEvents, turn2) \<Rightarrow>
                     (case processChunks env aborted (Suc i) rest turn2 of
                        (evs, returned, turn3) \<Rightarrow>
                          (textEvents @ callEvents @ evs, returned, turn3)))))"

text \<open>
  The stream the chat hands to the Turn: the chunks it delivers and, when it fails (or
  when \<open>chat.sendMessageStream\<close> itself throws, with no chunks), what it throws.
\<close>

record ResponseStream =
  chunks :: "GenerateContentResponse list"
  failure :: "thrown option"

text \<open>
  Modelled from the spec: the body of the \<open>catch\<close> of \<open>Turn.run\<close> is elided in the source
  ("Error handling..."). By the spec a backend or transport error is surfaced as an
  \<open>Error\<close> event of the Turn; it is not thrown to the caller.
\<close>

definition run ::
  "TurnEnv \<Rightarrow> (nat \<Rightarrow> bool) \<Rightarrow> ResponseStream \<Rightarrow> Turn \<Rightarrow> ServerGeminiStreamEvent list \<times> Turn" where
  "run env aborted responseStream turn =
     (case processChunks env aborted 0 (chunks responseStream) turn of
        (evs, returned, turn1) \<Rightarrow>
          (if returned then (evs, turn1)
           else (case failure responseStream of
                   None \<Rightarrow> (evs, turn1)
                 | Some e \<Rightarrow> (evs @ [ErrorEvent e], turn1))))"

text \<open>How a template literal prints the optional tool name.\<close>

definition templateName :: "string option \<Rightarrow> string" where
  "templateName fnName = (case fnName of None \<Rightarrow> ''undefined'' | Some n \<Rightarrow> n)"

text \<open>
  Surroundings to run the Turn in: a clock that stands still and a random source that
  repeats itself; a random source whose draws differ; a signal that is never aborted.
\<close>

definition frozenEnv :: TurnEnv where
  "frozenEnv =
     \<lparr>getResponseText = (\<lambda>r. None), dateNow = (\<lambda>k. 5), randomBase16 = (\<lambda>k. ''0.8a'')\<rparr>"

definition freshEnv :: TurnEnv where
  "freshEnv =
     \<lparr>getResponseText = (\<lambda>r. None), dateNow = (\<lambda>k. 5),
      randomBase16 = (\<lambda>k. if k = 0 then ''0.8a'' else ''0.c4'')\<rparr>"

definition neverAborted :: "nat \<Rightarrow> bool" where
  "neverAborted i = False"

definition lsCall :: FunctionCall where
  "lsCall = \<lparr>fcId = None, fcName = Some ''ls'', fcArgs = None\<rparr>"

definition lsChunk :: GenerateContentResponse where
  "lsChunk = \<lparr>candidates = None, functionCalls = Some [lsCall]\<rparr>"

definition twoChunks :: ResponseStream where
  "twoChunks = \<lparr>chunks = [lsChunk, lsChunk], failure = None\<rparr>"

definition lsGenerated :: ToolCallRequestInfo where
  "lsGenerated = \<lparr>callId = ''ls-5-8a'', name = ''ls'', args = [], isClientInitiated = False\<rparr>"

definition thoughtPart :: Part where
  "thoughtPart = \<lparr>partText = Some ''**Plan** read files '', thought = True\<rparr>"

definition thoughtChunk :: GenerateContentResponse where
  "thoughtChunk =
     \<lparr>candidates = Some [\<lparr>content = Some \<lparr>role = ''model'', parts = Some [thoughtPart]\<rparr>\<rparr>],
      functionCalls = None\<rparr>"

section \<open>The driver loop (\<open>GeminiClient.sendMessageStream\<close>)\<close>

definition MAX_TURNS :: int where
  "MAX_TURNS = 100"

datatype NextSpeaker = Model | User

text \<open>
  What the client reads from its surroundings, each by the number of earlier calls:
  the outcome of \<open>tryCompressChat\<close>, the stream the chat returns to the \<open>k\<close>-th Turn, the
  value of \<open>signal.aborted\<close> while that Turn runs and after it has run, the outcome of
  \<open>checkNextSpeaker\<close>, and the surroundings of the \<open>k\<close>-th Turn. The turn budget is an
  integer.
\<close>

record ClientEnv =
  tryCompressChat :: "nat \<Rightarrow> thrown + string option"
  chatStream :: "nat \<Rightarrow> ResponseStream"
  abortedDuring :: "nat \<Rightarrow> nat \<Rightarrow> bool"
  abortedAfter :: "nat \<Rightarrow> bool"
  checkNextSpeaker :: "nat \<Rightarrow> thrown + NextSpeaker option"
  turnEnv :: "nat \<Rightarrow> TurnEnv"

text \<open>
  Ghost state of the client: the requests handed to \<open>turn.run\<close> so far (one backend
  exchange each), the numbers of calls of \<open>tryCompressChat\<close> and of \<open>checkNextSpeaker\<close>,
  and the budgets passed to the recursive calls made so far.
\<close>

record ClientState =
  requestsSent :: "string list list"
  compressCalls :: nat
  speakerChecks :: nat
  continuationBudgets :: "int list"

text \<open>
  The generator, run to its end: the events it yields, then the Turn it returns or the
  value it throws, and the client's state. A call that never returns has the value
  \<open>None\<close>.
\<close>

partial_function (option) sendMessageStream ::
  "ClientEnv \<Rightarrow> string list \<Rightarrow> int \<Rightarrow> ClientState
     \<Rightarrow> ((ServerGeminiStreamEvent list \<times> (thrown + Turn)) \<times> ClientState) option" where
  "sendMessageStream env req turns st =
     (let boundedTurns = min turns MAX_TURNS in
      if boundedTurns = 0 then Some (([], Inr newTurn), st)
      else
        (case tryCompressChat env (compressCalls st) of
           Inl e \<Rightarrow> Some (([], Inl e), st\<lparr>compressCalls := Suc (compressCalls st)\<rparr>)
         | Inr compressed \<Rightarrow>
             (let st1 = st\<lparr>compressCalls := Suc (compressCalls st)\<rparr>;
                  compressedEvents =
                    (case compressed of None \<Rightarrow> [] | Some info \<Rightarrow> [ChatCompressedEvent info]);
                  k = length (requestsSent st1);
                  ran = run (turnEnv env k) (abortedDuring env k) (chatStream env k) newTurn;
                  turnEvents = fst ran;
                  turn = snd ran;
                  st2 = st1\<lparr>requestsSent := requestsSent st1 @ [req]\<rparr>
              in if pendingToolCalls turn = [] \<and> \<not> abortedAfter env k
                 then (case checkNextSpeaker env (speakerChecks st2) of
                         Inl e \<Rightarrow>
                           Some ((compressedEvents @ turnEvents, Inl e),
                                 st2\<lparr>speakerChecks := Suc (speakerChecks st2)\<rparr>)
                       | Inr nextSpeakerCheck \<Rightarrow>
                           (let st3 = st2\<lparr>speakerChecks := Suc (speakerChecks st2)\<rparr> in
                            if nextSpeakerCheck = Some Model
                            then Option.bind
                                   (sendMessageStream env [''Please continue.'']
                                      (boundedTurns - 1)
                                      (st3\<lparr>continuationBudgets :=
                                            continuationBudgets st3 @ [boundedTurns - 1]\<rparr>))
                                   (\<lambda>inner.
                                      Some ((compressedEvents @ turnEvents @ fst (fst inner),
                                             (case snd (fst inner) of
                                                Inl e \<Rightarrow> Inl e
                                              | Inr innerTurn \<Rightarrow> Inr turn)),
                                            snd inner))
                            else Some ((compressedEvents @ turnEvents, Inr turn), st3)))
                 else Some ((compressedEvents @ turnEvents, Inr turn), st2))))"

text \<open>
  A backend that never asks for a tool and always wants to go on speaking, and a client
  that has done nothing yet.
\<close>

definition silentTurnEnv :: TurnEnv where
  "silentTurnEnv =
     \<lparr>getResponseText = (\<lambda>r. None), dateNow = (\<lambda>k. 0), randomBase16 = (\<lambda>k. ''0.1'')\<rparr>"

definition chattyEnv :: ClientEnv where
  "chattyEnv =
     \<lparr>tryCompressChat = (\<lambda>k. Inr None),
      chatStream = (\<lambda>k. \<lparr>chunks = [], failure = None\<rparr>),
      abortedDuring = (\<lambda>k i. False),
      abortedAfter = (\<lambda>k. False),
      checkNextSpeaker = (\<lambda>k. Inr (Some Model)),
      turnEnv = (\<lambda>k. silentTurnEnv)\<rparr>"

text \<open>The same backend behind a client whose \<open>tryCompressChat\<close> throws.\<close>

definition crampedEnv :: ClientEnv where
  "crampedEnv = chattyEnv\<lparr>tryCompressChat := (\<lambda>k. Inl (ErrorObj ''compression failed''))\<rparr>"

definition freshClient :: ClientState where
  "freshClient =
     \<lparr>requestsSent = [], compressCalls = 0, speakerChecks = 0, continuationBudgets = []\<rparr>"

text \<open>
  \<open>withinBudget b st st'\<close>: between the states \<open>st\<close> and \<open>st'\<close> at most \<open>b\<close> recursive
  calls were made, with the budgets \<open>b - 1\<close>, \<open>b - 2\<close>, ... in this order, and at most \<open>b\<close>
  exchanges with the backend of each kind.
\<close>

definition withinBudget :: "int \<Rightarrow> ClientState \<Rightarrow> ClientState \<Rightarrow> bool" where
  "withinBudget b st st' =
     (\<exists>n. n \<le> nat b
        \<and> continuationBudgets st' = continuationBudgets st @ map (\<lambda>j. b - 1 - int j) [0..<n]
        \<and> length (requestsSent st') \<le> length (requestsSent st) + nat b
        \<and> compressCalls st' \<le> compressCalls st + nat b
        \<and> speakerChecks st' \<le> speakerChecks st + nat b)"

text \<open>
  \<open>thrownByHelper env st st' e\<close>: one of the calls of \<open>tryCompressChat\<close> or of
  \<open>checkNextSpeaker\<close> made between the states \<open>st\<close> and \<open>st'\<close> threw \<open>e\<close>.
\<close>

definition thrownByHelper :: "ClientEnv \<Rightarrow> ClientState \<Rightarrow> ClientState \<Rightarrow> thrown \<Rightarrow> bool" where
  "thrownByHelper env st st' e =
     (list_ex (\<lambda>k. tryCompressChat env k = Inl e) [compressCalls st..<compressCalls st']
      \<or> list_ex (\<lambda>k. checkNextSpeaker env k = Inl e) [speakerChecks st..<speakerChecks st'])"

section \<open>The two agents and their messages\<close>

datatype AgentType = MAIN | TOOLS

datatype AgentMessageType =
  TOOL_EXECUTION_REQUEST | TOOL_EXECUTION_RESPONSE | PLANNING_REQUEST | PLANNING_RESPONSE
  | STATUS_UPDATE | ERROR

text \<open>
  The union \<open>AgentA2AMessage\<close>: the fields of \<open>AgentMessage\<close>, and in \<open>body\<close> the fields
  each interface adds. The \<open>type\<close> tag of a message is the variant of its body.
\<close>

datatype MessageBody =
  ToolExecutionRequestBody (requestedToolCalls: "ToolCallRequestInfo list")
    (requestContext: "Content list option")
  | ToolExecutionResponseBody (toolResults: "ToolCallResponseInfo list") (success: bool)
      (error: "string option")
  | PlanningRequestBody (situation: string) (availableTools: "string list")
      (planningContext: "Content list option")
  | PlanningResponseBody (plan: string) (nextSteps: "string list") (toolsToUse: "string list")
  | StatusUpdateBody (statusText: string) (progress: "nat option")
  | ErrorMessageBody (errorText: string) (stack: "string option")

record AgentA2AMessage =
  msgId :: string
  fromAgent :: AgentType
  toAgent :: AgentType
  timestamp :: nat
  msgContent :: string
  metadata :: "ToolCallResponseInfo list option"
  body :: MessageBody

fun messageType :: "AgentA2AMessage \<Rightarrow> AgentMessageType" where
  "messageType m =
     (case body m of
        ToolExecutionRequestBody calls c \<Rightarrow> TOOL_EXECUTION_REQUEST
      | ToolExecutionResponseBody results ok e \<Rightarrow> TOOL_EXECUTION_RESPONSE
      | PlanningRequestBody s tools c \<Rightarrow> PLANNING_REQUEST
      | PlanningResponseBody p steps tools \<Rightarrow> PLANNING_RESPONSE
      | StatusUpdateBody s p \<Rightarrow> STATUS_UPDATE
      | ErrorMessageBody e s \<Rightarrow> ERROR)"

record AgentContext =
  sessionId :: string
  conversationHistory :: "Content list"
  currentTask :: "string option"

text \<open>
  What an agent reads from its surroundings: the outcome of the \<open>k\<close>-th call of
  \<open>generateContent\<close> on the given contents, the value of the \<open>k\<close>-th \<open>Date.now()\<close>, the
  outcome of initialising an agent's client, the main agent's system prompt (a constant
  of \<open>prompts.ts\<close>), and the \<open>callId\<close> and \<open>resultDisplay\<close> of the object that
  \<open>createErrorResponse\<close> builds (the helper is not among the sources). \<open>World\<close> counts
  the calls made so far.
\<close>

record AgentEnv =
  generateContent :: "nat \<Rightarrow> Content list \<Rightarrow> thrown + GenerateContentResponse"
  clock :: "nat \<Rightarrow> nat"
  initializeClient :: "AgentType \<Rightarrow> thrown option"
  mainAgentSystemPrompt :: string
  errorResponseFields :: "ToolCallRequestInfo \<Rightarrow> thrown \<Rightarrow> string \<times> string"

record World =
  llmCalls :: nat
  clockReads :: nat

text \<open>
  The fields the two agent classes share. The callback, when set, is given a message and
  resolves (\<open>None\<close>) or rejects.
\<close>

record Agent =
  agentCtx :: "AgentContext option"
  onMessageCallback :: "(AgentA2AMessage \<Rightarrow> thrown option) option"

record ToolsAgent = Agent +
  toolScheduler :: CoreToolScheduler

subsection \<open>Helpers on strings\<close>

definition joinWith :: "string \<Rightarrow> string list \<Rightarrow> string" where
  "joinWith sep xs = concat (case xs of [] \<Rightarrow> [] | y # ys \<Rightarrow> y # map (\<lambda>z. sep @ z) ys)"

text \<open>\<open>split('\n')\<close>: the pieces between the line feeds; never the empty list.\<close>

fun splitLines :: "string \<Rightarrow> string list" where
  "splitLines [] = [[]]"
| "splitLines (c # cs) =
     (if c = CHR 0x0A then [] # splitLines cs
      else (case splitLines cs of
              [] \<Rightarrow> [[c]]
            | l # ls \<Rightarrow> (c # l) # ls))"

text \<open>
  \<open>toLowerCase\<close> on code units below 256: the letters A to Z and the capital letters of
  Latin-1 (\<open>0xC0\<close> to \<open>0xDE\<close> without the multiplication sign) move up by 32.
\<close>

definition upperChars :: string where
  "upperChars =
     ''ABCDEFGHIJKLMNOPQRSTUVWXYZ''
     @ [CHR 0xC0, CHR 0xC1, CHR 0xC2, CHR 0xC3, CHR 0xC4, CHR 0xC5, CHR 0xC6, CHR 0xC7,
        CHR 0xC8, CHR 0xC9, CHR 0xCA, CHR 0xCB, CHR 0xCC, CHR 0xCD, CHR 0xCE, CHR 0xCF,
        CHR 0xD0, CHR 0xD1, CHR 0xD2, CHR 0xD3, CHR 0xD4, CHR 0xD5, CHR 0xD6, CHR 0xD8,
        CHR 0xD9, CHR 0xDA, CHR 0xDB, CHR 0xDC, CHR 0xDD, CHR 0xDE]"

definition lowerChars :: string where
  "lowerChars =
     ''abcdefghijklmnopqrstuvwxyz''
     @ [CHR 0xE0, CHR 0xE1, CHR 0xE2, CHR 0xE3, CHR 0xE4, CHR 0xE5, CHR 0xE6, CHR 0xE7,
        CHR 0xE8, CHR 0xE9, CHR 0xEA, CHR 0xEB, CHR 0xEC, CHR 0xED, CHR 0xEE, CHR 0xEF,
        CHR 0xF0, CHR 0xF1, CHR 0xF2, CHR 0xF3, CHR 0xF4, CHR 0xF5, CHR 0xF6, CHR 0xF8,
        CHR 0xF9, CHR 0xFA, CHR 0xFB, CHR 0xFC, CHR 0xFD, CHR 0xFE]"

definition lowerChar :: "char \<Rightarrow> char" where
  "lowerChar c = (case map_of (zip upperChars lowerChars) c of Some l \<Rightarrow> l | None \<Rightarrow> c)"

definition toLowerCase :: "string \<Rightarrow> string" where
  "toLowerCase s = map lowerChar s"

definition includesStr :: "string \<Rightarrow> string \<Rightarrow> bool" where
  "includesStr s k = list_ex (\<lambda>i. take (length k) (drop i s) = k) [0..<Suc (length s)]"

definition extractResponseText :: "GenerateContentResponse \<Rightarrow> string" where
  "extractResponseText response =
     (let candidate = (case candidates response of Some (c # cs) \<Rightarrow> Some c | _ \<Rightarrow> None);
          ct = (case candidate of Some c \<Rightarrow> content c | None \<Rightarrow> None);
          ps = (case ct of
                  Some c \<Rightarrow> (case parts c of Some ps \<Rightarrow> ps | None \<Rightarrow> [])
                | None \<Rightarrow> [])
      in concat (map (\<lambda>p. case partText p of Some t \<Rightarrow> t | None \<Rightarrow> [])
                   (filter (\<lambda>p. case partText p of Some t \<Rightarrow> t \<noteq> [] | None \<Rightarrow> False) ps)))"

definition userContent :: "string \<Rightarrow> Content" where
  "userContent t = \<lparr>role = ''user'', parts = Some [\<lparr>partText = Some t, thought = False\<rparr>]\<rparr>"

definition modelContent :: "string \<Rightarrow> Content" where
  "modelContent t = \<lparr>role = ''model'', parts = Some [\<lparr>partText = Some t, thought = False\<rparr>]\<rparr>"

text \<open>What the handlers put into \<open>error\<close>: \<open>error instanceof Error ? error.message : 'Unknown error'\<close>.\<close>

fun errorMessage :: "thrown \<Rightarrow> string" where
  "errorMessage (ErrorObj m) = m"
| "errorMessage NonError = ''Unknown error''"

text \<open>
  One call of \<open>this.geminiClient.generateContent(contents, ...)\<close>, counted in the world.
\<close>

definition callGenerateContent ::
  "AgentEnv \<Rightarrow> Content list \<Rightarrow> World \<Rightarrow> (thrown + GenerateContentResponse) \<times> World" where
  "callGenerateContent env contents w =
     (generateContent env (llmCalls w) contents, w\<lparr>llmCalls := Suc (llmCalls w)\<rparr>)"

text \<open>
  The two \<open>Date.now()\<close> of a message literal, \<open>id\<close> first, then \<open>timestamp\<close>.
\<close>

definition stamp :: "AgentEnv \<Rightarrow> World \<Rightarrow> (nat \<times> nat) \<times> World" where
  "stamp env w =
     ((clock env (clockReads w), clock env (Suc (clockReads w))),
      w\<lparr>clockReads := Suc (Suc (clockReads w))\<rparr>)"

subsection \<open>\<open>MainAgent\<close>\<close>

definition planningPrompt :: "string \<Rightarrow> string list \<Rightarrow> string" where
  "planningPrompt situationText tools =
     [CHR 0x0A]
     @ ''You are the main planning agent. The tools agent is requesting guidance on how to handle this situation:''
     @ [CHR 0x0A] @ [CHR 0x0A] @ ''Situation: '' @ situationText @ [CHR 0x0A]
     @ ''Available Tools: '' @ joinWith '', '' tools @ [CHR 0x0A] @ [CHR 0x0A]
     @ ''Please provide a clear plan and specify which tools should be used in what order.''
     @ [CHR 0x0A] @ ''Focus on the strategy and approach, not the detailed execution.''
     @ [CHR 0x0A]"

definition extractPlanFromResponse :: "string \<Rightarrow> string" where
  "extractPlanFromResponse response = response"

definition extractToolsFromResponse :: "string \<Rightarrow> string list \<Rightarrow> string list" where
  "extractToolsFromResponse response tools =
     filter (\<lambda>t. includesStr (toLowerCase response) (toLowerCase t)) tools"

text \<open>
  \<open>handlePlanningRequest\<close>, in the two parts that its one \<open>await\<close> separates. The
  handler runs up to the call of \<open>generateContent\<close> (\<open>startPlanningRequest\<close>: the call is
  made, and what it will settle to is known to the surroundings); when that promise has
  settled, the handler goes on to its end (\<open>resumePlanningRequest\<close>). It has no \<open>try\<close>:
  what \<open>generateContent\<close> throws leaves the handler. \<open>handlePlanningRequest\<close> is the
  handler as a caller that awaits it sees it.
\<close>

definition startPlanningRequest ::
  "AgentEnv \<Rightarrow> AgentA2AMessage \<Rightarrow> World \<Rightarrow> (thrown + GenerateContentResponse) \<times> World" where
  "startPlanningRequest env req w =
     callGenerateContent env
       [userContent (planningPrompt (situation (body req)) (availableTools (body req)))] w"

definition resumePlanningRequest ::
  "AgentEnv \<Rightarrow> AgentA2AMessage \<Rightarrow> thrown + GenerateContentResponse \<Rightarrow> World
     \<Rightarrow> (thrown + AgentA2AMessage) \<times> World" where
  "resumePlanningRequest env req settled w =
     (case settled of
        Inl e \<Rightarrow> (Inl e, w)
      | Inr response \<Rightarrow>
          (let responseText = extractResponseText response;
               planText = extractPlanFromResponse responseText;
               tools = extractToolsFromResponse responseText (availableTools (body req))
           in case stamp env w of
                ((t1, t2), w1) \<Rightarrow>
                  (Inr \<lparr>msgId = ''planning_'' @ showNat t1,
                        fromAgent = MAIN, toAgent = TOOLS, timestamp = t2,
                        msgContent = responseText, metadata = None,
                        body = PlanningResponseBody planText
                                 (filter (\<lambda>step. trim step \<noteq> []) (splitLines planText))
                                 tools\<rparr>,
                   w1)))"

definition handlePlanningRequest ::
  "AgentEnv \<Rightarrow> AgentA2AMessage \<Rightarrow> World \<Rightarrow> (thrown + AgentA2AMessage) \<times> World" where
  "handlePlanningRequest env req w =
     (case startPlanningRequest env req w of
        (settled, w1) \<Rightarrow> resumePlanningRequest env req settled w1)"

text \<open>The two fields of a tool result that the main agent prints.\<close>

fun responseCallId :: "AgentEnv \<Rightarrow> ToolCallResponseInfo \<Rightarrow> string" where
  "responseCallId env (ResponseInfo cid ps display e) = cid"
| "responseCallId env (CreateErrorResponse r e) = fst (errorResponseFields env r e)"

fun resultDisplay :: "AgentEnv \<Rightarrow> ToolCallResponseInfo \<Rightarrow> string" where
  "resultDisplay env (ResponseInfo cid ps display e) = display"
| "resultDisplay env (CreateErrorResponse r e) = snd (errorResponseFields env r e)"

definition synthesisPrompt :: "AgentEnv \<Rightarrow> ToolCallResponseInfo list \<Rightarrow> string" where
  "synthesisPrompt env results =
     (let resultsText =
            joinWith [CHR 0x0A]
              (map (\<lambda>result. ''Tool '' @ responseCallId env result @ '': ''
                       @ (if resultDisplay env result = [] then ''Executed successfully''
                          else resultDisplay env result))
                 results)
      in [CHR 0x0A]
         @ ''Based on the following tool execution results, provide a clear and helpful response to the user:''
         @ [CHR 0x0A] @ [CHR 0x0A] @ resultsText @ [CHR 0x0A] @ [CHR 0x0A]
         @ ''Synthesize these results into a coherent response that directly addresses the user''
         @ [CHR 0x27] @ ''s needs.'' @ [CHR 0x0A])"

definition generateFinalResponseFromToolResults ::
  "AgentEnv \<Rightarrow> ToolCallResponseInfo list \<Rightarrow> World \<Rightarrow> (thrown + string) \<times> World" where
  "generateFinalResponseFromToolResults env results w =
     (case callGenerateContent env [userContent (synthesisPrompt env results)] w of
        (Inl e, w1) \<Rightarrow> (Inl e, w1)
      | (Inr response, w1) \<Rightarrow> (Inr (extractResponseText response), w1))"

text \<open>
  \<open>handleToolExecutionResponse\<close>, in the two parts that its one \<open>await\<close> separates.
  Without a context the handler returns \<open>null\<close> at once (\<open>None\<close> below); otherwise it
  runs up to the call of \<open>generateContent\<close> inside
  \<open>generateFinalResponseFromToolResults\<close>. When that promise has settled it goes on: it
  reads \<open>this.context\<close> again, which throws a \<open>TypeError\<close> if the agent was shut down in
  between.
\<close>

definition startToolExecutionResponse ::
  "AgentEnv \<Rightarrow> AgentA2AMessage \<Rightarrow> Agent \<Rightarrow> World \<Rightarrow> (thrown + string) option \<times> World" where
  "startToolExecutionResponse env response agent w =
     (case agentCtx agent of
        None \<Rightarrow> (None, w)
      | Some c \<Rightarrow>
          (case generateFinalResponseFromToolResults env (toolResults (body response)) w of
             (settled, w1) \<Rightarrow> (Some settled, w1)))"

definition resumeToolExecutionResponse ::
  "AgentEnv \<Rightarrow> AgentA2AMessage \<Rightarrow> thrown + string \<Rightarrow> Agent \<Rightarrow> World
     \<Rightarrow> (thrown + AgentA2AMessage option) \<times> Agent \<times> World" where
  "resumeToolExecutionResponse env response settled agent w =
     (case settled of
        Inl e \<Rightarrow> (Inl e, agent, w)
      | Inr finalResponse \<Rightarrow>
          (case agentCtx agent of
             None \<Rightarrow> (Inl typeErrorUndefined, agent, w)
           | Some c \<Rightarrow>
               (let agent1 = agent\<lparr>agentCtx :=
                       Some (c\<lparr>conversationHistory :=
                                 conversationHistory c @ [modelContent finalResponse]\<rparr>)\<rparr>
                in case stamp env w of
                     ((t1, t2), w1) \<Rightarrow>
                       (Inr (Some \<lparr>msgId = ''response_'' @ showNat t1,
                                   fromAgent = MAIN, toAgent = TOOLS, timestamp = t2,
                                   msgContent = finalResponse,
                                   metadata = Some (toolResults (body response)),
                                   body = StatusUpdateBody ''tool_results_processed'' None\<rparr>),
                        agent1, w1))))"

definition handleToolExecutionResponse ::
  "AgentEnv \<Rightarrow> AgentA2AMessage \<Rightarrow> Agent \<Rightarrow> World
     \<Rightarrow> (thrown + AgentA2AMessage option) \<times> Agent \<times> World" where
  "handleToolExecutionResponse env response agent w =
     (case startToolExecutionResponse env response agent w of
        (None, w1) \<Rightarrow> (Inr None, agent, w1)
      | (Some settled, w1) \<Rightarrow> resumeToolExecutionResponse env response settled agent w1)"

text \<open>\<open>MainAgent.processMessage\<close>: the \<open>switch\<close> on the message type.\<close>

definition mainProcessMessage ::
  "AgentEnv \<Rightarrow> AgentA2AMessage \<Rightarrow> Agent \<Rightarrow> World
     \<Rightarrow> (thrown + AgentA2AMessage option) \<times> Agent \<times> World" where
  "mainProcessMessage env message agent w =
     (case messageType message of
        PLANNING_REQUEST \<Rightarrow>
          (case handlePlanningRequest env message w of
             (Inl e, w1) \<Rightarrow> (Inl e, agent, w1)
           | (Inr response, w1) \<Rightarrow> (Inr (Some response), agent, w1))
      | TOOL_EXECUTION_RESPONSE \<Rightarrow> handleToolExecutionResponse env message agent w
      | STATUS_UPDATE \<Rightarrow> (Inr None, agent, w)
      | _ \<Rightarrow> (Inr None, agent, w))"

definition toolKeywords :: "string list" where
  "toolKeywords =
     [''read file'', ''write file'', ''create file'', ''delete file'',
      ''run command'', ''execute'', ''shell'', ''terminal'',
      ''search'', ''find'', ''grep'', ''list files'',
      ''edit'', ''modify'', ''update'', ''change'']"

definition analyzeForToolExecution :: "string \<Rightarrow> string \<Rightarrow> bool" where
  "analyzeForToolExecution response userInput =
     list_ex (\<lambda>keyword. includesStr (toLowerCase userInput) keyword
                        \<or> includesStr (toLowerCase response) keyword) toolKeywords"

definition createToolExecutionRequest ::
  "AgentEnv \<Rightarrow> string \<Rightarrow> Agent \<Rightarrow> World \<Rightarrow> AgentA2AMessage \<times> World" where
  "createToolExecutionRequest env userInput agent w =
     (case stamp env w of
        ((t1, t2), w1) \<Rightarrow>
          (\<lparr>msgId = ''tool_request_'' @ showNat t1,
            fromAgent = MAIN, toAgent = TOOLS, timestamp = t2,
            msgContent = ''Execute tools for: '' @ userInput, metadata = None,
            body = ToolExecutionRequestBody []
                     (case agentCtx agent of
                        None \<Rightarrow> None
                      | Some c \<Rightarrow> Some (conversationHistory c))\<rparr>,
           w1))"

definition coordinatingReply :: string where
  "coordinatingReply =
     ''I'' @ [CHR 0x27]
     @ ''ve analyzed your request and am coordinating with the tools agent to execute the necessary operations. Please wait...''"

definition understoodReply :: string where
  "understoodReply =
     ''I understand. I am the main planning agent and will work with the tools agent to help you.''"

text \<open>
  \<open>MainAgent.handleUserInput\<close>: what it returns or throws, the messages it has passed to
  its callback, and the agent and the world afterwards.
\<close>

definition mainHandleUserInput ::
  "AgentEnv \<Rightarrow> string \<Rightarrow> Agent \<Rightarrow> World
     \<Rightarrow> (thrown + string) \<times> AgentA2AMessage list \<times> Agent \<times> World" where
  "mainHandleUserInput env userInput agent w =
     (case agentCtx agent of
        None \<Rightarrow> (Inl (ErrorObj ''Agent not initialized''), [], agent, w)
      | Some c \<Rightarrow>
          (let conversationContent =
                 [userContent (mainAgentSystemPrompt env), modelContent understoodReply]
                 @ conversationHistory c @ [userContent userInput]
           in case callGenerateContent env conversationContent w of
                (Inl e, w1) \<Rightarrow> (Inl e, [], agent, w1)
              | (Inr response, w1) \<Rightarrow>
                  (let responseText = extractResponseText response in
                   if analyzeForToolExecution responseText userInput
                   then (case createToolExecutionRequest env userInput agent w1 of
                           (toolRequest, w2) \<Rightarrow>
                             (case onMessageCallback agent of
                                None \<Rightarrow> (Inr coordinatingReply, [], agent, w2)
                              | Some callback \<Rightarrow>
                                  (case callback toolRequest of
                                     Some e \<Rightarrow> (Inl e, [toolRequest], agent, w2)
                                   | None \<Rightarrow> (Inr coordinatingReply, [toolRequest], agent, w2))))
                   else (Inr responseText, [],
                         agent\<lparr>agentCtx :=
                           Some (c\<lparr>conversationHistory :=
                                     conversationHistory c
                                     @ [userContent userInput, modelContent responseText]\<rparr>)\<rparr>,
                         w1))))"

subsection \<open>\<open>ToolsAgent\<close>\<close>

definition analysisPrompt :: "AgentA2AMessage \<Rightarrow> string" where
  "analysisPrompt req =
     (let requestText = msgContent req;
          joined = (case requestContext (body req) of
                      None \<Rightarrow> []
                    | Some cs \<Rightarrow>
                        joinWith [CHR 0x0A]
                          (map (\<lambda>c. case parts c of
                                      None \<Rightarrow> []
                                    | Some ps \<Rightarrow>
                                        concat (map (\<lambda>p. case partText p of
                                                           None \<Rightarrow> []
                                                         | Some t \<Rightarrow> t) ps))
                             cs));
          contextText = (if joined = [] then ''No context'' else joined)
      in [CHR 0x0A]
         @ ''You are the Tools Agent. Your job is to analyze the following request and determine what tools need to be executed.''
         @ [CHR 0x0A] @ [CHR 0x0A] @ ''Request: '' @ requestText @ [CHR 0x0A]
         @ [CHR 0x0A] @ ''Available context:'' @ [CHR 0x0A] @ contextText @ [CHR 0x0A]
         @ [CHR 0x0A] @ ''Your role is to:'' @ [CHR 0x0A]
         @ ''1. Identify what tools are needed'' @ [CHR 0x0A]
         @ ''2. Determine the correct parameters for each tool'' @ [CHR 0x0A]
         @ ''3. Plan the execution order'' @ [CHR 0x0A] @ [CHR 0x0A]
         @ ''Focus on operational execution, not strategic planning.'' @ [CHR 0x0A]
         @ [CHR 0x0A]
         @ ''Please analyze this request and provide a clear plan for tool execution.''
         @ [CHR 0x0A])"

text \<open>
  \<open>sendStatusUpdate\<close>: with a callback set, a status update is built and passed to it.
\<close>

definition sendStatusUpdate ::
  "AgentEnv \<Rightarrow> string \<Rightarrow> ToolsAgent \<Rightarrow> World
     \<Rightarrow> thrown option \<times> AgentA2AMessage list \<times> World" where
  "sendStatusUpdate env statusLine agent w =
     (case onMessageCallback agent of
        None \<Rightarrow> (None, [], w)
      | Some callback \<Rightarrow>
          (case stamp env w of
             ((t1, t2), w1) \<Rightarrow>
               (let update = \<lparr>msgId = ''status_'' @ showNat t1,
                              fromAgent = TOOLS, toAgent = MAIN, timestamp = t2,
                              msgContent = statusLine, metadata = None,
                              body = StatusUpdateBody statusLine None\<rparr>
                in (callback update, [update], w1))))"

text \<open>
  \<open>analyzeAndCreateToolCalls\<close>: the model is asked, its answer is read, and the empty
  list of tool calls is returned ("this would need to be implemented").
\<close>

definition analyzeAndCreateToolCalls ::
  "AgentEnv \<Rightarrow> AgentA2AMessage \<Rightarrow> World \<Rightarrow> (thrown + ToolCallRequestInfo list) \<times> World" where
  "analyzeAndCreateToolCalls env req w =
     (case callGenerateContent env [userContent (analysisPrompt req)] w of
        (Inl e, w1) \<Rightarrow> (Inl e, w1)
      | (Inr response, w1) \<Rightarrow>
          (let responseText = extractResponseText response in (Inr [], w1)))"

definition toolResponse ::
  "AgentEnv \<Rightarrow> string \<Rightarrow> bool \<Rightarrow> string option \<Rightarrow> World \<Rightarrow> AgentA2AMessage \<times> World" where
  "toolResponse env summary ok err w =
     (case stamp env w of
        ((t1, t2), w1) \<Rightarrow>
          (\<lparr>msgId = ''tool_response_'' @ showNat t1,
            fromAgent = TOOLS, toAgent = MAIN, timestamp = t2,
            msgContent = summary, metadata = None,
            body = ToolExecutionResponseBody [] ok err\<rparr>,
           w1))"

text \<open>
  \<open>handleToolExecutionRequest\<close>, in the two parts that its first \<open>await\<close> separates.
  The handler runs up to \<open>await this.sendStatusUpdate(...)\<close>
  (\<open>startToolExecutionRequest\<close>: the status update has been passed to the callback).
  When that promise has settled (\<open>None\<close>: resolved) the handler goes on to its end
  (\<open>resumeToolExecutionRequest\<close>), through the awaits of \<open>analyzeAndCreateToolCalls\<close> and
  of \<open>schedule\<close>.

  \<open>tryToolExecution\<close> is the rest of the \<open>try\<close> block up to its \<open>return\<close>: it ends by
  the exception of the first step that throws, or with the scheduler after \<open>schedule\<close>.
  The list handed to \<open>schedule\<close> is the one \<open>analyzeAndCreateToolCalls\<close> returns;
  \<open>request.toolCalls\<close> is not read. The signal handed to \<open>schedule\<close> is fresh, so it is
  not aborted; \<open>schedule\<close> reads the clock once for each request whose tool the
  registry knows.
\<close>

definition startToolExecutionRequest ::
  "AgentEnv \<Rightarrow> ToolsAgent \<Rightarrow> World \<Rightarrow> thrown option \<times> AgentA2AMessage list \<times> World" where
  "startToolExecutionRequest env agent w =
     sendStatusUpdate env ''Starting tool execution...'' agent w"

definition tryToolExecution ::
  "AgentEnv \<Rightarrow> AgentA2AMessage \<Rightarrow> thrown option \<Rightarrow> ToolsAgent \<Rightarrow> World
     \<Rightarrow> (thrown + ToolCallRequestInfo list) \<times> ToolsAgent \<times> World" where
  "tryToolExecution env req settled agent w =
     (case settled of
        Some e \<Rightarrow> (Inl e, agent, w)
      | None \<Rightarrow>
          (case analyzeAndCreateToolCalls env req w of
             (Inl e, w1) \<Rightarrow> (Inl e, agent, w1)
           | (Inr calls, w1) \<Rightarrow>
               (let known = (\<lambda>rs. filter (\<lambda>r. toolRegistry (toolScheduler agent) (name r) \<noteq> None) rs)
                in case schedule (\<lambda>i. clock env (clockReads w1 + length (known (take i calls))))
                          False (Many calls) (toolScheduler agent) of
                     Inl e \<Rightarrow> (Inl e, agent, w1)
                   | Inr sched \<Rightarrow>
                       (Inr calls, agent\<lparr>toolScheduler := sched\<rparr>,
                        w1\<lparr>clockReads := clockReads w1 + length (known calls)\<rparr>))))"

text \<open>
  After the \<open>try\<close> block: the placeholder response, or the response of the \<open>catch\<close>.
  Both carry the literal \<open>toolResults: []\<close>.
\<close>

definition resumeToolExecutionRequest ::
  "AgentEnv \<Rightarrow> AgentA2AMessage \<Rightarrow> thrown option \<Rightarrow> ToolsAgent \<Rightarrow> World
     \<Rightarrow> AgentA2AMessage \<times> ToolsAgent \<times> World" where
  "resumeToolExecutionRequest env req settled agent w =
     (case tryToolExecution env req settled agent w of
        (Inr calls, agent1, w1) \<Rightarrow>
          (case toolResponse env ''Tool execution completed'' True None w1 of
             (response, w2) \<Rightarrow> (response, agent1, w2))
      | (Inl e, agent1, w1) \<Rightarrow>
          (case toolResponse env ''Tool execution failed'' False (Some (errorMessage e)) w1 of
             (response, w2) \<Rightarrow> (response, agent1, w2)))"

text \<open>
  \<open>handleToolExecutionRequest\<close> as a caller that awaits it sees it: what the handler
  returns (\<open>Inr\<close>) or throws (\<open>Inl\<close>), the messages it has passed to its callback, the
  agent and the world afterwards.
\<close>

definition handleToolExecutionRequest ::
  "AgentEnv \<Rightarrow> AgentA2AMessage \<Rightarrow> ToolsAgent \<Rightarrow> World
     \<Rightarrow> (thrown + AgentA2AMessage) \<times> AgentA2AMessage list \<times> ToolsAgent \<times> World" where
  "handleToolExecutionRequest env req agent w =
     (case startToolExecutionRequest env agent w of
        (settled, sent, w1) \<Rightarrow>
          (case resumeToolExecutionRequest env req settled agent w1 of
             (response, agent1, w2) \<Rightarrow> (Inr response, sent, agent1, w2)))"

text \<open>\<open>ToolsAgent.processMessage\<close>.\<close>

definition toolsProcessMessage ::
  "AgentEnv \<Rightarrow> AgentA2AMessage \<Rightarrow> ToolsAgent \<Rightarrow> World
     \<Rightarrow> (thrown + AgentA2AMessage option) \<times> AgentA2AMessage list \<times> ToolsAgent \<times> World" where
  "toolsProcessMessage env message agent w =
     (case messageType message of
        TOOL_EXECUTION_REQUEST \<Rightarrow>
          (case handleToolExecutionRequest env message agent w of
             (Inl e, sent, agent1, w1) \<Rightarrow> (Inl e, sent, agent1, w1)
           | (Inr response, sent, agent1, w1) \<Rightarrow> (Inr (Some response), sent, agent1, w1))
      | STATUS_UPDATE \<Rightarrow> (Inr None, [], agent, w)
      | _ \<Rightarrow> (Inr None, [], agent, w))"

text \<open>
  The terminal records among \<open>records\<close>, as the results a response would carry.
\<close>

definition terminalResults :: "ToolCall list \<Rightarrow> ToolCallResponseInfo list" where
  "terminalResults records =
     concat (map (\<lambda>c. case outcome c of AuxResponse r \<Rightarrow> [r] | _ \<Rightarrow> [])
               (filter (\<lambda>c. isTerminal (status c)) records))"

section \<open>The orchestrator and its buses\<close>

record AgentCommunicationBus =
  agentType :: AgentType
  messageHistory :: "AgentA2AMessage list"

text \<open>
  The listeners that \<open>setupCommunication\<close> registers on the buses are \<open>async\<close>
  functions. \<open>emit\<close> calls the listener at once, and the listener, with the
  \<open>processMessage\<close> it calls, runs up to the first \<open>await\<close> on its way; there it gives
  control back, and \<open>emit\<close> does not wait for more. What is left of the listener is resumed
  by the event loop afterwards. A task is a listener stopped at that first \<open>await\<close>:

  \<^item> the listener of the main agent's bus, in the tools agent's
    \<open>handleToolExecutionRequest\<close> at \<open>await this.sendStatusUpdate(...)\<close>, with the request
    and with what that promise settles to;
  \<^item> the listener of the tools agent's bus, in the main agent's \<open>handlePlanningRequest\<close>
    at \<open>await generateContent(...)\<close>, with the request and with what the call settles to;
  \<^item> the listener of the tools agent's bus, in the main agent's
    \<open>handleToolExecutionResponse\<close> at \<open>await generateFinalResponseFromToolResults(...)\<close>,
    with the response and with what that promise settles to.

  A listener whose agent returns \<open>null\<close> without waiting has nothing left to do.
\<close>

datatype ListenerTask =
  ToolExecutionTask AgentA2AMessage "thrown option"
  | PlanningTask AgentA2AMessage "thrown + GenerateContentResponse"
  | SynthesisTask AgentA2AMessage "thrown + string"

text \<open>
  The orchestrator object. Two ghost fields keep track of the listeners:
  \<open>pendingListeners\<close> lists the tasks not yet resumed, oldest first, and
  \<open>unhandledRejections\<close> what listeners have thrown, which reaches no caller.
\<close>

record AgentOrchestrator =
  mainAgent :: Agent
  toolsAgent :: ToolsAgent
  mainAgentBus :: AgentCommunicationBus
  toolsAgentBus :: AgentCommunicationBus
  isInitialized :: bool
  pendingListeners :: "ListenerTask list"
  unhandledRejections :: "thrown list"

text \<open>
  The callback \<open>setupCommunication\<close> gives to an agent sends the message on the agent's
  bus; it never rejects. The orchestrator sends what the agent passed to it.
\<close>

definition busCallback :: "AgentA2AMessage \<Rightarrow> thrown option" where
  "busCallback message = None"

definition newBus :: "AgentType \<Rightarrow> AgentCommunicationBus" where
  "newBus t = \<lparr>agentType = t, messageHistory = []\<rparr>"

text \<open>The constructor; the scheduler is the one the tools agent builds from the config.\<close>

definition newOrchestrator :: "CoreToolScheduler \<Rightarrow> AgentOrchestrator" where
  "newOrchestrator sched =
     \<lparr>mainAgent = \<lparr>agentCtx = None, onMessageCallback = Some busCallback\<rparr>,
      toolsAgent = \<lparr>agentCtx = None, onMessageCallback = Some busCallback,
                    toolScheduler = sched\<rparr>,
      mainAgentBus = newBus MAIN,
      toolsAgentBus = newBus TOOLS,
      isInitialized = False,
      pendingListeners = [],
      unhandledRejections = []\<rparr>"

text \<open>\<open>this.messageHistory.push(message)\<close> on the bus owned by \<open>owner\<close>.\<close>

definition pushMessage :: "AgentType \<Rightarrow> AgentA2AMessage \<Rightarrow> AgentOrchestrator \<Rightarrow> AgentOrchestrator" where
  "pushMessage owner message orch =
     (case owner of
        MAIN \<Rightarrow> orch\<lparr>mainAgentBus := (mainAgentBus orch)
                 \<lparr>messageHistory := messageHistory (mainAgentBus orch) @ [message]\<rparr>\<rparr>
      | TOOLS \<Rightarrow> orch\<lparr>toolsAgentBus := (toolsAgentBus orch)
                 \<lparr>messageHistory := messageHistory (toolsAgentBus orch) @ [message]\<rparr>\<rparr>)"

text \<open>
  The listener of the tools agent's bus, as far as \<open>emit\<close> runs it: a message addressed
  to the main agent is handed to \<open>MainAgent.processMessage\<close>, which starts the handler of
  its type. Nothing is sent on a bus in this part.
\<close>

definition toolsBusListener ::
  "AgentEnv \<Rightarrow> AgentA2AMessage \<Rightarrow> AgentOrchestrator \<Rightarrow> World \<Rightarrow> AgentOrchestrator \<times> World" where
  "toolsBusListener env message orch w =
     (if toAgent message = MAIN
      then (case messageType message of
              PLANNING_REQUEST \<Rightarrow>
                (case startPlanningRequest env message w of
                   (settled, w1) \<Rightarrow>
                     (orch\<lparr>pendingListeners :=
                             pendingListeners orch @ [PlanningTask message settled]\<rparr>, w1))
            | TOOL_EXECUTION_RESPONSE \<Rightarrow>
                (case startToolExecutionResponse env message (mainAgent orch) w of
                   (None, w1) \<Rightarrow> (orch, w1)
                 | (Some settled, w1) \<Rightarrow>
                     (orch\<lparr>pendingListeners :=
                             pendingListeners orch @ [SynthesisTask message settled]\<rparr>, w1))
            | STATUS_UPDATE \<Rightarrow> (orch, w)
            | _ \<Rightarrow> (orch, w))
      else (orch, w))"

text \<open>
  The listener of the main agent's bus, as far as \<open>emit\<close> runs it: a message addressed
  to the tools agent is handed to \<open>ToolsAgent.processMessage\<close>. For a tool-execution
  request the handler passes its status update to the tools agent's callback, which sends
  it on the tools agent's bus (the push, and that bus's listener as far as \<open>emit\<close> runs
  it), before the first \<open>await\<close> gives control back.
\<close>

definition mainBusListener ::
  "AgentEnv \<Rightarrow> AgentA2AMessage \<Rightarrow> AgentOrchestrator \<Rightarrow> World \<Rightarrow> AgentOrchestrator \<times> World" where
  "mainBusListener env message orch w =
     (if toAgent message = TOOLS
      then (case messageType message of
              TOOL_EXECUTION_REQUEST \<Rightarrow>
                (case startToolExecutionRequest env (toolsAgent orch) w of
                   (settled, sent, w1) \<Rightarrow>
                     (case fold (\<lambda>update ow.
                                   toolsBusListener env update
                                     (pushMessage TOOLS update (fst ow)) (snd ow))
                             sent (orch, w1) of
                        (orch1, w2) \<Rightarrow>
                          (orch1\<lparr>pendingListeners :=
                                   pendingListeners orch1 @ [ToolExecutionTask message settled]\<rparr>,
                           w2)))
            | STATUS_UPDATE \<Rightarrow> (orch, w)
            | _ \<Rightarrow> (orch, w))
      else (orch, w))"

text \<open>
  \<open>AgentCommunicationBus.sendMessage\<close> on the bus owned by \<open>owner\<close>, up to its return:
  the message is pushed on the history and \<open>emit\<close> calls the bus's listener.
\<close>

definition sendMessage ::
  "AgentEnv \<Rightarrow> AgentType \<Rightarrow> AgentA2AMessage \<Rightarrow> AgentOrchestrator \<Rightarrow> World
     \<Rightarrow> AgentOrchestrator \<times> World" where
  "sendMessage env owner message orch w =
     (case owner of
        MAIN \<Rightarrow> mainBusListener env message (pushMessage MAIN message orch) w
      | TOOLS \<Rightarrow> toolsBusListener env message (pushMessage TOOLS message orch) w)"

definition initialize ::
  "AgentEnv \<Rightarrow> string \<Rightarrow> AgentOrchestrator \<Rightarrow> (thrown + unit) \<times> AgentOrchestrator" where
  "initialize env sid orch =
     (if isInitialized orch
      then (Inl (ErrorObj ''Agent orchestrator already initialized''), orch)
      else let c = \<lparr>sessionId = sid, conversationHistory = [], currentTask = None\<rparr>;
               orch1 = orch\<lparr>mainAgent := (mainAgent orch)\<lparr>agentCtx := Some c\<rparr>\<rparr>
           in case initializeClient env MAIN of
                Some e \<Rightarrow> (Inl e, orch1)
              | None \<Rightarrow>
                  (let orch2 = orch1\<lparr>toolsAgent := (toolsAgent orch1)\<lparr>agentCtx := Some c\<rparr>\<rparr>
                   in case initializeClient env TOOLS of
                        Some e \<Rightarrow> (Inl e, orch2)
                      | None \<Rightarrow> (Inr (), orch2\<lparr>isInitialized := True\<rparr>)))"

text \<open>
  \<open>AgentOrchestrator.handleUserInput\<close>. The request the main agent passes to its
  callback is sent on the main agent's bus before the main agent returns; what the
  listeners have left to do after that send is still pending in the orchestrator
  returned.
\<close>

definition handleUserInput ::
  "AgentEnv \<Rightarrow> string \<Rightarrow> AgentOrchestrator \<Rightarrow> World
     \<Rightarrow> (thrown + string) \<times> AgentOrchestrator \<times> World" where
  "handleUserInput env userInput orch w =
     (if \<not> isInitialized orch
      then (Inl (ErrorObj ''Agent orchestrator not initialized''), orch, w)
      else (case mainHandleUserInput env userInput (mainAgent orch) w of
              (result, sent, agent1, w1) \<Rightarrow>
                (case fold (\<lambda>message ow. sendMessage env MAIN message (fst ow) (snd ow))
                        sent (orch\<lparr>mainAgent := agent1\<rparr>, w1) of
                   (orch1, w2) \<Rightarrow>
                     (case result of
                        Inr response \<Rightarrow> (Inr response, orch1, w2)
                      | Inl e \<Rightarrow> (Inr (''Error: '' @ errorMessage e), orch1, w2)))))"

text \<open>
  The event loop resumes the oldest task, and the listener runs to its end: the agent's
  handler goes on from its \<open>await\<close>, and the listener sends the response, if there is
  one, on the other agent's bus. What a listener throws is an unhandled rejection.
\<close>

definition runListener :: "AgentEnv \<Rightarrow> AgentOrchestrator \<Rightarrow> World \<Rightarrow> AgentOrchestrator \<times> World" where
  "runListener env orch w =
     (case pendingListeners orch of
        [] \<Rightarrow> (orch, w)
      | task # rest \<Rightarrow>
          (let orch1 = orch\<lparr>pendingListeners := rest\<rparr> in
           case task of
             ToolExecutionTask req settled \<Rightarrow>
               (case resumeToolExecutionRequest env req settled (toolsAgent orch1) w of
                  (response, agent1, w1) \<Rightarrow>
                    sendMessage env TOOLS response (orch1\<lparr>toolsAgent := agent1\<rparr>) w1)
           | PlanningTask req settled \<Rightarrow>
               (case resumePlanningRequest env req settled w of
                  (Inl e, w1) \<Rightarrow>
                    (orch1\<lparr>unhandledRejections := unhandledRejections orch1 @ [e]\<rparr>, w1)
                | (Inr response, w1) \<Rightarrow> sendMessage env MAIN response orch1 w1)
           | SynthesisTask response settled \<Rightarrow>
               (case resumeToolExecutionResponse env response settled (mainAgent orch1) w of
                  (Inl e, agent1, w1) \<Rightarrow>
                    (orch1\<lparr>mainAgent := agent1,
                           unhandledRejections := unhandledRejections orch1 @ [e]\<rparr>, w1)
                | (Inr None, agent1, w1) \<Rightarrow> (orch1\<lparr>mainAgent := agent1\<rparr>, w1)
                | (Inr (Some update), agent1, w1) \<Rightarrow>
                    sendMessage env MAIN update (orch1\<lparr>mainAgent := agent1\<rparr>) w1)))"

definition getMainAgent :: "AgentOrchestrator \<Rightarrow> Agent" where
  "getMainAgent orch = mainAgent orch"

definition getToolsAgent :: "AgentOrchestrator \<Rightarrow> ToolsAgent" where
  "getToolsAgent orch = toolsAgent orch"

record CommunicationStats =
  mainAgentMessages :: nat
  toolsAgentMessages :: nat
  totalMessages :: nat
  messagesSent :: nat
  messagesReceived :: nat
  activeAgents :: nat

definition getCommunicationStats :: "AgentOrchestrator \<Rightarrow> CommunicationStats" where
  "getCommunicationStats orch =
     (let mainMessages = length (messageHistory (mainAgentBus orch));
          toolsMessages = length (messageHistory (toolsAgentBus orch))
      in \<lparr>mainAgentMessages = mainMessages,
          toolsAgentMessages = toolsMessages,
          totalMessages = mainMessages + toolsMessages,
          messagesSent = mainMessages + toolsMessages,
          messagesReceived = mainMessages + toolsMessages,
          activeAgents = (if isInitialized orch then 2 else 0)\<rparr>)"

definition getFullMessageHistory :: "AgentOrchestrator \<Rightarrow> AgentA2AMessage list" where
  "getFullMessageHistory orch =
     sort_key timestamp
       (messageHistory (mainAgentBus orch) @ messageHistory (toolsAgentBus orch))"

definition clearHistory :: "AgentOrchestrator \<Rightarrow> AgentOrchestrator" where
  "clearHistory orch =
     orch\<lparr>mainAgentBus := (mainAgentBus orch)\<lparr>messageHistory := []\<rparr>,
          toolsAgentBus := (toolsAgentBus orch)\<lparr>messageHistory := []\<rparr>\<rparr>"

text \<open>
  \<open>AgentOrchestrator.shutdown\<close>, with \<open>MainAgent.shutdown\<close> and \<open>ToolsAgent.shutdown\<close>
  inlined: each agent drops its context and its callback.
\<close>

definition shutdown :: "AgentOrchestrator \<Rightarrow> AgentOrchestrator" where
  "shutdown orch =
     (if \<not> isInitialized orch then orch
      else orch\<lparr>mainAgent := (mainAgent orch)\<lparr>agentCtx := None, onMessageCallback := None\<rparr>,
                toolsAgent := (toolsAgent orch)\<lparr>agentCtx := None, onMessageCallback := None\<rparr>,
                isInitialized := False\<rparr>)"

definition reset :: "AgentOrchestrator \<Rightarrow> AgentOrchestrator" where
  "reset orch =
     orch\<lparr>isInitialized := False,
          mainAgentBus := newBus MAIN,
          toolsAgentBus := newBus TOOLS,
          mainAgent := (mainAgent orch)\<lparr>onMessageCallback := Some busCallback\<rparr>,
          toolsAgent := (toolsAgent orch)\<lparr>onMessageCallback := Some busCallback\<rparr>\<rparr>"

record OrchestratorStatus =
  initialized :: bool
  mainAgentType :: AgentType
  toolsAgentType :: AgentType
  communicationStats :: CommunicationStats

definition getStatus :: "AgentOrchestrator \<Rightarrow> OrchestratorStatus" where
  "getStatus orch =
     \<lparr>initialized = isInitialized orch,
      mainAgentType = MAIN,
      toolsAgentType = TOOLS,
      communicationStats = getCommunicationStats orch\<rparr>"

section \<open>Surroundings and objects to run the agents on\<close>

definition textResponse :: "string \<Rightarrow> GenerateContentResponse" where
  "textResponse t =
     \<lparr>candidates = Some [\<lparr>content = Some (modelContent t)\<rparr>], functionCalls = None\<rparr>"

definition replyingEnv :: "string \<Rightarrow> AgentEnv" where
  "replyingEnv t =
     \<lparr>generateContent = (\<lambda>k contents. Inr (textResponse t)), clock = (\<lambda>k. k),
      initializeClient = (\<lambda>a. None), mainAgentSystemPrompt = ''system'',
      errorResponseFields = (\<lambda>r e. (callId r, errorMessage e))\<rparr>"

definition failingEnv :: AgentEnv where
  "failingEnv =
     \<lparr>generateContent = (\<lambda>k contents. Inl (ErrorObj ''quota exceeded'')), clock = (\<lambda>k. k),
      initializeClient = (\<lambda>a. None), mainAgentSystemPrompt = ''system'',
      errorResponseFields = (\<lambda>r e. (callId r, errorMessage e))\<rparr>"

definition freshWorld :: World where
  "freshWorld = \<lparr>llmCalls = 0, clockReads = 0\<rparr>"

definition planningRequest :: AgentA2AMessage where
  "planningRequest =
     \<lparr>msgId = ''p1'', fromAgent = TOOLS, toAgent = MAIN, timestamp = 0,
      msgContent = ''help'', metadata = None,
      body = PlanningRequestBody ''stuck'' [''ls''] None\<rparr>"

definition blankPlan :: AgentA2AMessage where
  "blankPlan =
     \<lparr>msgId = ''planning_0'', fromAgent = MAIN, toAgent = TOOLS, timestamp = 1,
      msgContent = '' '', metadata = None,
      body = PlanningResponseBody '' '' [] []\<rparr>"

definition lsExecutionRequest :: AgentA2AMessage where
  "lsExecutionRequest =
     \<lparr>msgId = ''t1'', fromAgent = MAIN, toAgent = TOOLS, timestamp = 0,
      msgContent = ''list the files'', metadata = None,
      body = ToolExecutionRequestBody [lsRequest] None\<rparr>"

text \<open>The reply of the tools agent when its \<open>try\<close> block runs through.\<close>

definition placeholderResponse :: AgentA2AMessage where
  "placeholderResponse =
     \<lparr>msgId = ''tool_response_0'', fromAgent = TOOLS, toAgent = MAIN, timestamp = 1,
      msgContent = ''Tool execution completed'', metadata = None,
      body = ToolExecutionResponseBody [] True None\<rparr>"

definition idleToolsAgent :: ToolsAgent where
  "idleToolsAgent =
     \<lparr>agentCtx = None, onMessageCallback = None, toolScheduler = idleScheduler\<rparr>"

definition sessionContext :: AgentContext where
  "sessionContext = \<lparr>sessionId = ''s1'', conversationHistory = [], currentTask = None\<rparr>"

text \<open>
  The orchestrator after \<open>initialize('s1')\<close>; the request the main agent makes for the
  input \<open>read file a.txt\<close>, and the status update with which the tools agent starts on
  it; the orchestrator after that input; and the orchestrator after a planning request
  was sent on the tools agent's bus, with a backend that will answer \<open>ok\<close>.
\<close>

definition readyOrchestrator :: AgentOrchestrator where
  "readyOrchestrator =
     \<lparr>mainAgent = \<lparr>agentCtx = Some sessionContext, onMessageCallback = Some busCallback\<rparr>,
      toolsAgent = \<lparr>agentCtx = Some sessionContext, onMessageCallback = Some busCallback,
                    toolScheduler = idleScheduler\<rparr>,
      mainAgentBus = newBus MAIN,
      toolsAgentBus = newBus TOOLS,
      isInitialized = True,
      pendingListeners = [],
      unhandledRejections = []\<rparr>"

definition readFileRequest :: AgentA2AMessage where
  "readFileRequest =
     \<lparr>msgId = ''tool_request_0'', fromAgent = MAIN, toAgent = TOOLS, timestamp = 1,
      msgContent = ''Execute tools for: read file a.txt'', metadata = None,
      body = ToolExecutionRequestBody [] (Some [])\<rparr>"

definition startingUpdate :: AgentA2AMessage where
  "startingUpdate =
     \<lparr>msgId = ''status_2'', fromAgent = TOOLS, toAgent = MAIN, timestamp = 3,
      msgContent = ''Starting tool execution...'', metadata = None,
      body = StatusUpdateBody ''Starting tool execution...'' None\<rparr>"

definition talkingOrchestrator :: AgentOrchestrator where
  "talkingOrchestrator =
     readyOrchestrator
       \<lparr>mainAgentBus := \<lparr>agentType = MAIN, messageHistory = [readFileRequest]\<rparr>,
        toolsAgentBus := \<lparr>agentType = TOOLS, messageHistory = [startingUpdate]\<rparr>,
        pendingListeners := [ToolExecutionTask readFileRequest None]\<rparr>"

definition askedOrchestrator :: AgentOrchestrator where
  "askedOrchestrator =
     readyOrchestrator
       \<lparr>toolsAgentBus := \<lparr>agentType = TOOLS, messageHistory = [planningRequest]\<rparr>,
        pendingListeners := [PlanningTask planningRequest (Inr (textResponse ''ok''))]\<rparr>"

section \<open>Properties of the scheduler\<close>

subsection \<open>What the status updates leave alone\<close>

lemma setStatusInternal_fields [simp]:
  "length (toolCalls (setStatusInternal c st a s)) = length (toolCalls s)"
  "approvalMode (setStatusInternal c st a s) = approvalMode s"
  "toolRegistry (setStatusInternal c st a s) = toolRegistry s"
  "executeInvocations (setStatusInternal c st a s) = executeInvocations s"
  "map request (toolCalls (setStatusInternal c st a s)) = map request (toolCalls s)"
  "map tool (toolCalls (setStatusInternal c st a s)) = map tool (toolCalls s)"
  by (simp_all add: setStatusInternal_def)

lemma setStatusInternal_terminal:
  "i < length (toolCalls s) \<Longrightarrow> isTerminal (status (toolCalls s ! i)) \<Longrightarrow>
   toolCalls (setStatusInternal c st a s) ! i = toolCalls s ! i"
  by (simp add: setStatusInternal_def)

lemma processToolCall_fields [simp]:
  "length (toolCalls (processToolCall ab tc s)) = length (toolCalls s)"
  "approvalMode (processToolCall ab tc s) = approvalMode s"
  "toolRegistry (processToolCall ab tc s) = toolRegistry s"
  "executeInvocations (processToolCall ab tc s) = executeInvocations s"
  "map request (toolCalls (processToolCall ab tc s)) = map request (toolCalls s)"
  "map tool (toolCalls (processToolCall ab tc s)) = map tool (toolCalls s)"
  by (simp_all add: processToolCall_def Let_def split: option.splits sum.splits)

lemma processToolCall_terminal:
  "i < length (toolCalls s) \<Longrightarrow> isTerminal (status (toolCalls s ! i)) \<Longrightarrow>
   toolCalls (processToolCall ab tc s) ! i = toolCalls s ! i"
  by (simp add: processToolCall_def Let_def setStatusInternal_terminal
      split: option.splits sum.splits)

lemma fold_processToolCall_fields [simp]:
  "length (toolCalls (fold (processToolCall ab) tcs s)) = length (toolCalls s)"
  "approvalMode (fold (processToolCall ab) tcs s) = approvalMode s"
  "toolRegistry (fold (processToolCall ab) tcs s) = toolRegistry s"
  "executeInvocations (fold (processToolCall ab) tcs s) = executeInvocations s"
  "map request (toolCalls (fold (processToolCall ab) tcs s)) = map request (toolCalls s)"
  "map tool (toolCalls (fold (processToolCall ab) tcs s)) = map tool (toolCalls s)"
  by (induction tcs arbitrary: s; simp)+

lemma fold_processToolCall_terminal:
  "i < length (toolCalls s) \<Longrightarrow> isTerminal (status (toolCalls s ! i)) \<Longrightarrow>
   toolCalls (fold (processToolCall ab) tcs s) ! i = toolCalls s ! i"
  by (induction tcs arbitrary: s) (simp_all add: processToolCall_terminal)

lemma setStatusInternal_resolved:
  "list_all (resolved r) (toolCalls s) \<Longrightarrow>
   list_all (resolved r) (toolCalls (setStatusInternal c st a s))"
  by (auto simp: setStatusInternal_def list_all_iff resolved_def)

lemma processToolCall_resolved:
  "list_all (resolved r) (toolCalls s) \<Longrightarrow>
   list_all (resolved r) (toolCalls (processToolCall ab tc s))"
  by (simp add: processToolCall_def Let_def setStatusInternal_resolved
      split: option.splits sum.splits)

lemma fold_processToolCall_resolved:
  "list_all (resolved r) (toolCalls s) \<Longrightarrow>
   list_all (resolved r) (toolCalls (fold (processToolCall ab) tcs s))"
  by (induction tcs arbitrary: s) (simp_all add: processToolCall_resolved)

lemma newToolCall_resolved: "resolved r (newToolCall r now ir)"
  by (cases ir) (simp add: newToolCall_def resolved_def isTerminal_def split: option.splits)

lemma startExecutions_ok:
  "list_all (\<lambda>c. status c = Scheduled \<and> tool c \<noteq> None) cs \<Longrightarrow>
   \<exists>s'. startExecutions cs s = Inr s'
      \<and> executeInvocations s' = executeInvocations s @ cs
      \<and> length (toolCalls s') = length (toolCalls s)
      \<and> toolRegistry s' = toolRegistry s
      \<and> (\<forall>i < length (toolCalls s). isTerminal (status (toolCalls s ! i)) \<longrightarrow>
            toolCalls s' ! i = toolCalls s ! i)"
proof (induction cs arbitrary: s)
  case Nil
  then show ?case by simp
next
  case (Cons c cs)
  from Cons.prems obtain t where c: "status c = Scheduled" "tool c = Some t"
    and rest: "list_all (\<lambda>c. status c = Scheduled \<and> tool c \<noteq> None) cs"
    by auto
  let ?s1 = "setStatusInternal (callId (request c)) Executing NoAux s"
  let ?s2 = "?s1\<lparr>executeInvocations := executeInvocations ?s1 @ [c]\<rparr>"
  from Cons.IH[OF rest, of ?s2] obtain s' where s':
    "startExecutions cs ?s2 = Inr s'"
    "executeInvocations s' = executeInvocations ?s2 @ cs"
    "length (toolCalls s') = length (toolCalls ?s2)"
    "toolRegistry s' = toolRegistry ?s2"
    "\<forall>i < length (toolCalls ?s2). isTerminal (status (toolCalls ?s2 ! i)) \<longrightarrow>
            toolCalls s' ! i = toolCalls ?s2 ! i"
    by blast
  have "startExecutions (c # cs) s = Inr s'"
    using c s'(1) by (simp add: Let_def)
  moreover have "executeInvocations s' = executeInvocations s @ c # cs"
    using s'(2) by simp
  moreover have "length (toolCalls s') = length (toolCalls s)"
    using s'(3) by simp
  moreover have "toolRegistry s' = toolRegistry s"
    using s'(4) by simp
  moreover have "\<forall>i < length (toolCalls s). isTerminal (status (toolCalls s ! i)) \<longrightarrow>
            toolCalls s' ! i = toolCalls s ! i"
    using s'(5) by (simp add: setStatusInternal_terminal)
  ultimately show ?case by blast
qed

lemma not_running_all_terminal:
  "\<not> isRunning s \<Longrightarrow> list_all (\<lambda>c. isTerminal (status c)) (toolCalls s)"
  by (simp add: isRunning_def list_all_iff list_ex_iff)

lemma schedule_accepts:
  fixes req now s
  defines "reqs \<equiv> requestsToProcess req"
  defines "new \<equiv> map (newToolCall (toolRegistry s) now) (enumerate 0 reqs)"
  assumes idle: "\<not> isRunning s"
  shows "\<exists>s' started. schedule now aborted req s = Inr s'
      \<and> length (toolCalls s') = length (toolCalls s) + length reqs
      \<and> executeInvocations s' = executeInvocations s @ started
      \<and> list_all (\<lambda>c. tool c \<noteq> None \<and> toolRegistry s (name (request c)) = tool c) started
      \<and> (\<forall>i < length reqs. isTerminal (status (new ! i)) \<longrightarrow>
            toolCalls s' ! (length (toolCalls s) + i) = new ! i)"
proof -
  let ?s1 = "s\<lparr>toolCalls := toolCalls s @ new\<rparr>"
  let ?s2 = "fold (processToolCall aborted) new ?s1"
  let ?cs = "filter (\<lambda>call. status call = Scheduled) (toolCalls ?s2)"
  have len_new: "length new = length reqs"
    by (simp add: new_def)
  have "list_all (resolved (toolRegistry s)) (toolCalls s)"
    using not_running_all_terminal[OF idle] by (simp add: list_all_iff resolved_def)
  moreover have "list_all (resolved (toolRegistry s)) new"
    by (simp add: new_def list_all_iff newToolCall_resolved)
  ultimately have "list_all (resolved (toolRegistry s)) (toolCalls ?s1)"
    by simp
  then have res2: "list_all (resolved (toolRegistry s)) (toolCalls ?s2)"
    by (rule fold_processToolCall_resolved)
  have cs: "list_all (\<lambda>c. status c = Scheduled \<and> tool c \<noteq> None) ?cs"
    using res2 by (auto simp: list_all_iff resolved_def isTerminal_def)
  have cs_reg: "list_all (\<lambda>c. tool c \<noteq> None \<and> toolRegistry s (name (request c)) = tool c) ?cs"
    using res2 by (auto simp: list_all_iff resolved_def isTerminal_def)
  from startExecutions_ok[OF cs, of ?s2] obtain s' where s':
    "startExecutions ?cs ?s2 = Inr s'"
    "executeInvocations s' = executeInvocations ?s2 @ ?cs"
    "length (toolCalls s') = length (toolCalls ?s2)"
    "\<forall>i < length (toolCalls ?s2). isTerminal (status (toolCalls ?s2 ! i)) \<longrightarrow>
            toolCalls s' ! i = toolCalls ?s2 ! i"
    by blast
  have run: "schedule now aborted req s = Inr s'"
    using idle s'(1)
    by (simp add: schedule_def Let_def attemptExecutionOfScheduledCalls_def new_def reqs_def)
  have len: "length (toolCalls s') = length (toolCalls s) + length reqs"
    using s'(3) len_new by simp
  have log: "executeInvocations s' = executeInvocations s @ ?cs"
    using s'(2) by simp
  have kept: "toolCalls s' ! (length (toolCalls s) + i) = new ! i"
    if i: "i < length reqs" and fin: "isTerminal (status (new ! i))" for i
  proof -
    let ?k = "length (toolCalls s) + i"
    have k: "?k < length (toolCalls ?s1)"
      using i len_new by simp
    have at1: "toolCalls ?s1 ! ?k = new ! i"
      by (simp add: nth_append)
    have at2: "toolCalls ?s2 ! ?k = new ! i"
      using fold_processToolCall_terminal[OF k, of aborted new] fin at1 by simp
    have "?k < length (toolCalls ?s2)"
      using k by simp
    with s'(4) at2 fin show ?thesis
      by simp
  qed
  from run len log cs_reg kept show ?thesis
    by blast
qed


subsection \<open>Settlement after cancellation\<close>

lemma onExecuteSettled_fields [simp]:
  "length (toolCalls (onExecuteSettled ab tc out s)) = length (toolCalls s)"
  "executeInvocations (onExecuteSettled ab tc out s) = executeInvocations s"
  "map request (toolCalls (onExecuteSettled ab tc out s)) = map request (toolCalls s)"
  by (simp_all add: onExecuteSettled_def Let_def split: ExecuteOutcome.splits)

lemma onExecuteSettled_terminal:
  "i < length (toolCalls s) \<Longrightarrow> isTerminal (status (toolCalls s ! i)) \<Longrightarrow>
   toolCalls (onExecuteSettled ab tc out s) ! i = toolCalls s ! i"
  by (simp add: onExecuteSettled_def Let_def setStatusInternal_terminal
      split: ExecuteOutcome.splits)

lemma onExecuteSettled_other:
  "i < length (toolCalls s) \<Longrightarrow> callId (request (toolCalls s ! i)) \<noteq> callId (request tc) \<Longrightarrow>
   toolCalls (onExecuteSettled ab tc out s) ! i = toolCalls s ! i"
  by (simp add: onExecuteSettled_def Let_def setStatusInternal_def split: ExecuteOutcome.splits)

lemma onExecuteSettled_aborted:
  "i < length (toolCalls s) \<Longrightarrow> \<not> isTerminal (status (toolCalls s ! i)) \<Longrightarrow>
   callId (request (toolCalls s ! i)) = callId (request tc) \<Longrightarrow>
   status (toolCalls (onExecuteSettled True tc out s) ! i) =
     (case out of Resolved x \<Rightarrow> Cancelled | Rejected e \<Rightarrow> Error)"
  by (simp add: onExecuteSettled_def Let_def setStatusInternal_def split: ExecuteOutcome.splits)

lemma runEvents_fields [simp]:
  "length (toolCalls (runEvents ab es s)) = length (toolCalls s)"
  "executeInvocations (runEvents ab es s) = executeInvocations s"
  by (induction ab es s rule: runEvents.induct; simp)+

lemma runEvents_terminal:
  "i < length (toolCalls s) \<Longrightarrow> isTerminal (status (toolCalls s ! i)) \<Longrightarrow>
   toolCalls (runEvents ab es s) ! i = toolCalls s ! i"
  by (induction ab es s rule: runEvents.induct) (simp_all add: onExecuteSettled_terminal)

lemma request_nth:
  "map request xs = map request ys \<Longrightarrow> i < length ys \<Longrightarrow> request (xs ! i) = request (ys ! i)"
  by (metis length_map nth_map)

lemma runEvents_after_abort:
  "i < length (toolCalls s) \<Longrightarrow> \<not> isTerminal (status (toolCalls s ! i)) \<Longrightarrow>
   status (toolCalls (runEvents True es s) ! i) =
     (case settlementFor (callId (request (toolCalls s ! i))) (executeInvocations s) es of
        None \<Rightarrow> status (toolCalls s ! i)
      | Some (Resolved x) \<Rightarrow> Cancelled
      | Some (Rejected e) \<Rightarrow> Error)"
proof (induction es arbitrary: s)
  case Nil
  then show ?case by simp
next
  case (Cons ev es)
  show ?case
  proof (cases ev)
    case Abort
    with Cons show ?thesis by simp
  next
    case (Settle k out)
    show ?thesis
    proof (cases "k < length (executeInvocations s)")
      case False
      with Settle Cons show ?thesis by simp
    next
      case True
      let ?tc = "executeInvocations s ! k"
      let ?s1 = "onExecuteSettled True ?tc out s"
      have i1: "i < length (toolCalls ?s1)"
        using Cons.prems(1) by simp
      show ?thesis
      proof (cases "callId (request ?tc) = callId (request (toolCalls s ! i))")
        case same: True
        have st: "status (toolCalls ?s1 ! i) = (case out of Resolved x \<Rightarrow> Cancelled | Rejected e \<Rightarrow> Error)"
          using onExecuteSettled_aborted[OF Cons.prems(1,2)] same by simp
        then have "isTerminal (status (toolCalls ?s1 ! i))"
          by (simp add: isTerminal_def split: ExecuteOutcome.splits)
        then have "toolCalls (runEvents True es ?s1) ! i = toolCalls ?s1 ! i"
          using i1 by (rule runEvents_terminal[rotated])
        with st Settle True same show ?thesis
          by (simp split: ExecuteOutcome.splits)
      next
        case other: False
        have keep: "toolCalls ?s1 ! i = toolCalls s ! i"
          using onExecuteSettled_other[OF Cons.prems(1)] other by simp
        have "\<not> isTerminal (status (toolCalls ?s1 ! i))"
          using Cons.prems(2) keep by simp
        from Cons.IH[OF i1 this]
        have "status (toolCalls (runEvents True es ?s1) ! i) =
          (case settlementFor (callId (request (toolCalls s ! i))) (executeInvocations s) es of
             None \<Rightarrow> status (toolCalls s ! i)
           | Some (Resolved x) \<Rightarrow> Cancelled
           | Some (Rejected e) \<Rightarrow> Error)"
          unfolding keep by simp
        with Settle True other show ?thesis
          by simp
      qed
    qed
  qed
qed


text \<open>
  What the two callbacks leave once the signal is aborted: a record that is not terminal
  keeps its state while no promise of an \<open>execute\<close> invoked for its call id has settled;
  the \<open>then\<close> callback moves it to \<open>Cancelled\<close>, the \<open>catch\<close> callback to \<open>Error\<close>; it
  never reaches \<open>Success\<close>.
\<close>

lemma settled_after_abort:
  assumes "i < length (toolCalls s)"
    and "\<not> isTerminal (status (toolCalls s ! i))"
  shows "status (toolCalls (runEvents False (Abort # es) s) ! i) =
     (case settlementFor (callId (request (toolCalls s ! i))) (executeInvocations s) es of
        None \<Rightarrow> status (toolCalls s ! i)
      | Some (Resolved x) \<Rightarrow> Cancelled
      | Some (Rejected e) \<Rightarrow> Error)
    \<and> status (toolCalls (runEvents False (Abort # es) s) ! i) \<noteq> Success"
proof -
  have eq: "status (toolCalls (runEvents False (Abort # es) s) ! i) =
     (case settlementFor (callId (request (toolCalls s ! i))) (executeInvocations s) es of
        None \<Rightarrow> status (toolCalls s ! i)
      | Some (Resolved x) \<Rightarrow> Cancelled
      | Some (Rejected e) \<Rightarrow> Error)"
    using runEvents_after_abort[OF assms] by simp
  moreover have "status (toolCalls (runEvents False (Abort # es) s) ! i) \<noteq> Success"
    using assms(2) unfolding eq
    by (simp add: isTerminal_def split: option.splits ExecuteOutcome.splits)
  ultimately show ?thesis by blast
qed

subsection \<open>Claims about the scheduler\<close>

text \<open>
  Claim C1 does not hold of the code: it says that, once the signal is aborted before any
  record completes, every record that is not terminal ends in \<open>Cancelled\<close> and never in
  \<open>Success\<close> or \<open>Error\<close>. The two callbacks on the promise of \<open>execute\<close> differ: \<open>then\<close>
  reads \<open>signal.aborted\<close> and sets \<open>cancelled\<close>, \<open>catch\<close> does not read the signal and
  sets \<open>error\<close>. Here one request for the registered tool is scheduled with an unaborted
  signal and is executing; the signal is aborted; then the promise rejects, and the record
  ends in \<open>Error\<close>. Had the promise resolved, the record would have ended in \<open>Cancelled\<close>.
\<close>

theorem cancel_then_reject_ends_in_error:
  "schedule clock7 False (Single lsRequest) idleScheduler = Inr busyScheduler
   \<and> map status (toolCalls busyScheduler) = [Executing]
   \<and> map status
        (toolCalls (runEvents False [Abort, Settle 0 (Rejected (ErrorObj ''boom''))] busyScheduler))
       = [Error]
   \<and> map status
        (toolCalls (runEvents False
           [Abort, Settle 0 (Resolved \<lparr>llmContent = ''a.txt'', returnDisplay = ''1 file''\<rparr>)]
           busyScheduler))
       = [Cancelled]"
  by (simp add: schedule_def isRunning_def idleScheduler_def busyScheduler_def lsScheduled_def
      lsRegistry_def clock7_def enumerate_eq_zip newToolCall_def lsRequest_def
      processToolCall_def setStatusInternal_def isTerminal_def
      attemptExecutionOfScheduledCalls_def onExecuteSettled_def Let_def)

text \<open>
  Claim C2: when a batch is accepted, a request whose tool name the registry does not know
  gets a record that is in the \<open>Error\<close> state at once, carrying the message
  \<open>Tool "<name>" not found\<close>, and no invocation of \<open>execute\<close> made by \<open>schedule\<close> is for
  that request: every invocation is for a request whose name the registry resolves.
  Whatever is delivered afterwards (aborts, settlements), the record stays as it is and
  no further invocation is made.
\<close>

theorem unknown_tool_is_error:
  assumes "\<not> isRunning s"
    and "i < length (requestsToProcess req)"
    and "r = requestsToProcess req ! i"
    and "toolRegistry s (name r) = None"
  shows "\<exists>s' started. schedule now aborted req s = Inr s'
      \<and> toolCalls s' ! (length (toolCalls s) + i) =
           \<lparr>status = Error, request = r, tool = None,
            outcome = AuxResponse (CreateErrorResponse r (ErrorObj (notFoundMessage (name r)))),
            startTime = None, durationMs = Some 0\<rparr>
      \<and> executeInvocations s' = executeInvocations s @ started
      \<and> list_all (\<lambda>c. toolRegistry s (name (request c)) \<noteq> None \<and> request c \<noteq> r) started
      \<and> (\<forall>ab es.
            toolCalls (runEvents ab es s') ! (length (toolCalls s) + i)
              = toolCalls s' ! (length (toolCalls s) + i)
          \<and> executeInvocations (runEvents ab es s') = executeInvocations s')"
proof -
  let ?reqs = "requestsToProcess req"
  let ?new = "map (newToolCall (toolRegistry s) now) (enumerate 0 ?reqs)"
  let ?k = "length (toolCalls s) + i"
  have new_i: "?new ! i =
           \<lparr>status = Error, request = r, tool = None,
            outcome = AuxResponse (CreateErrorResponse r (ErrorObj (notFoundMessage (name r)))),
            startTime = None, durationMs = Some 0\<rparr>"
    using assms(2,3,4) by (simp add: nth_enumerate_eq newToolCall_def)
  then have fin: "isTerminal (status (?new ! i))"
    by (simp add: isTerminal_def)
  from schedule_accepts[OF assms(1), of now aborted req] obtain s' started where s':
    "schedule now aborted req s = Inr s'"
    "length (toolCalls s') = length (toolCalls s) + length ?reqs"
    "executeInvocations s' = executeInvocations s @ started"
    "list_all (\<lambda>c. tool c \<noteq> None \<and> toolRegistry s (name (request c)) = tool c) started"
    "\<forall>i < length ?reqs. isTerminal (status (?new ! i)) \<longrightarrow>
            toolCalls s' ! (length (toolCalls s) + i) = ?new ! i"
    by blast
  have at: "toolCalls s' ! ?k = ?new ! i"
    using s'(5) assms(2) fin by blast
  have unknown: "list_all (\<lambda>c. toolRegistry s (name (request c)) \<noteq> None \<and> request c \<noteq> r) started"
    using s'(4) assms(4) by (auto simp: list_all_iff)
  have k: "?k < length (toolCalls s')"
    using s'(2) assms(2) by simp
  have later: "toolCalls (runEvents ab es s') ! ?k = toolCalls s' ! ?k
          \<and> executeInvocations (runEvents ab es s') = executeInvocations s'" for ab es
    using runEvents_terminal[OF k, of ab es] at fin by simp
  from s'(1,3) at new_i unknown later show ?thesis
    by auto
qed

theorem unknown_tool_is_error_witness:
  "\<not> isRunning idleScheduler
   \<and> (1::nat) < length (requestsToProcess (Many [lsRequest, catRequest]))
   \<and> toolRegistry idleScheduler (name catRequest) = None
   \<and> (\<exists>s' started. schedule clock7 False (Many [lsRequest, catRequest]) idleScheduler = Inr s'
        \<and> status (toolCalls s' ! 1) = Error
        \<and> outcome (toolCalls s' ! 1) =
             AuxResponse (CreateErrorResponse catRequest
               (ErrorObj (''Tool '' @ [CHR 0x22] @ ''cat'' @ [CHR 0x22] @ '' not found'')))
        \<and> executeInvocations s' = started
        \<and> list_all (\<lambda>c. request c \<noteq> catRequest) started
        \<and> status (toolCalls (runEvents False [Abort, Settle 0 (Rejected NonError)] s') ! 1)
            = Error)"
proof -
  have idle: "\<not> isRunning idleScheduler"
    by (simp add: isRunning_def idleScheduler_def)
  have len: "(1::nat) < length (requestsToProcess (Many [lsRequest, catRequest]))"
    by simp
  have at: "catRequest = requestsToProcess (Many [lsRequest, catRequest]) ! 1"
    by simp
  have unknown: "toolRegistry idleScheduler (name catRequest) = None"
    by (simp add: idleScheduler_def lsRegistry_def catRequest_def)
  from unknown_tool_is_error [OF idle len at unknown, of clock7 False]
  obtain s' started where s':
    "schedule clock7 False (Many [lsRequest, catRequest]) idleScheduler = Inr s'"
    "toolCalls s' ! (length (toolCalls idleScheduler) + 1) =
       \<lparr>status = Error, request = catRequest, tool = None,
        outcome = AuxResponse (CreateErrorResponse catRequest
                    (ErrorObj (notFoundMessage (name catRequest)))),
        startTime = None, durationMs = Some 0\<rparr>"
    "executeInvocations s' = executeInvocations idleScheduler @ started"
    "list_all (\<lambda>c. toolRegistry idleScheduler (name (request c)) \<noteq> None
                \<and> request c \<noteq> catRequest) started"
    "\<forall>ab es.
        toolCalls (runEvents ab es s') ! (length (toolCalls idleScheduler) + 1)
          = toolCalls s' ! (length (toolCalls idleScheduler) + 1)
      \<and> executeInvocations (runEvents ab es s') = executeInvocations s'"
    by blast
  have one: "length (toolCalls idleScheduler) + 1 = 1"
    by (simp add: idleScheduler_def)
  have rec1: "toolCalls s' ! 1 =
       \<lparr>status = Error, request = catRequest, tool = None,
        outcome = AuxResponse (CreateErrorResponse catRequest
                    (ErrorObj (notFoundMessage (name catRequest)))),
        startTime = None, durationMs = Some 0\<rparr>"
    using s'(2) unfolding one .
  have later: "toolCalls (runEvents False [Abort, Settle 0 (Rejected NonError)] s') ! 1
                 = toolCalls s' ! 1"
    using s'(5) unfolding one by blast
  have "schedule clock7 False (Many [lsRequest, catRequest]) idleScheduler = Inr s'
        \<and> status (toolCalls s' ! 1) = Error
        \<and> outcome (toolCalls s' ! 1) =
             AuxResponse (CreateErrorResponse catRequest
               (ErrorObj (''Tool '' @ [CHR 0x22] @ ''cat'' @ [CHR 0x22] @ '' not found'')))
        \<and> executeInvocations s' = started
        \<and> list_all (\<lambda>c. request c \<noteq> catRequest) started
        \<and> status (toolCalls (runEvents False [Abort, Settle 0 (Rejected NonError)] s') ! 1)
            = Error"
    using s'(1,3,4) rec1 later
    by (simp add: idleScheduler_def notFoundMessage_def catRequest_def list_all_iff)
  with idle len unknown show ?thesis
    by blast
qed

text \<open>
  Claim C3: while the scheduler holds a record that is not in a terminal state,
  \<open>schedule\<close> throws the "already running" error and takes in nothing.
\<close>

theorem schedule_while_running:
  assumes "c \<in> set (toolCalls s)"
    and "status c \<noteq> Success" and "status c \<noteq> Error" and "status c \<noteq> Cancelled"
  shows "schedule now aborted req s =
     Inl (ErrorObj ''Cannot schedule new tool calls while other tool calls are actively running'')"
proof -
  have "isRunning s"
    using assms by (auto simp: isRunning_def list_ex_iff isTerminal_def)
  then show ?thesis
    by (simp add: schedule_def alreadyRunning_def)
qed

theorem schedule_while_running_witness:
  "lsScheduled\<lparr>status := Executing\<rparr> \<in> set (toolCalls busyScheduler)
   \<and> status (lsScheduled\<lparr>status := Executing\<rparr>) = Executing
   \<and> schedule clock7 False (Single catRequest) busyScheduler =
       Inl (ErrorObj
         ''Cannot schedule new tool calls while other tool calls are actively running'')"
  using schedule_while_running [of "lsScheduled\<lparr>status := Executing\<rparr>" busyScheduler
      clock7 False "Single catRequest"]
  by (simp add: busyScheduler_def)

section \<open>Properties of the Turn\<close>

subsection \<open>Finding the bold span\<close>

lemma findMarker_sound:
  "findMarker s = Some (u, v) \<Longrightarrow> s = u @ ''**'' @ v"
  by (induction s arbitrary: u v rule: findMarker.induct)
    (auto split: if_splits option.splits)

lemma hasMarker_Cons: "hasMarker s \<Longrightarrow> hasMarker (a # s)"
  unfolding hasMarker_def by (metis append_Cons)

lemma hasMarker_stars: "hasMarker (CHR ''*'' # CHR ''*'' # s)"
  unfolding hasMarker_def by (rule exI[of _ "[]"]) simp

lemma findMarker_leftmost:
  "\<not> hasMarker (pre @ ''*'') \<Longrightarrow> findMarker (pre @ ''**'' @ rest) = Some (pre, rest)"
proof (induction pre)
  case Nil
  then show ?case by simp
next
  case (Cons a p)
  have no: "\<not> hasMarker (p @ ''*'')"
    using Cons.prems hasMarker_Cons by fastforce
  obtain b cs where bc: "p @ ''**'' @ rest = b # cs"
    by (cases "p @ ''**'' @ rest") auto
  have "\<not> (a = CHR ''*'' \<and> b = CHR ''*'')"
  proof
    assume ab: "a = CHR ''*'' \<and> b = CHR ''*''"
    have "\<exists>w. p @ ''*'' = CHR ''*'' # w"
      using bc ab by (cases p) auto
    then obtain w where "p @ ''*'' = CHR ''*'' # w" ..
    then have "(a # p) @ ''*'' = CHR ''*'' # CHR ''*'' # w"
      using ab by simp
    then have "hasMarker ((a # p) @ ''*'')"
      using hasMarker_stars by metis
    with Cons.prems show False by simp
  qed
  moreover have "findMarker (b # cs) = Some (p, rest)"
    using Cons.IH[OF no] bc by simp
  ultimately show ?case
    using bc by auto
qed

lemma matchBold_first:
  assumes "\<not> hasMarker (pre @ ''*'')" and "\<not> hasMarker (mid @ ''*'')"
  shows "matchBold (pre @ ''**'' @ mid @ ''**'' @ post) = Some (pre, mid, post)"
  using findMarker_leftmost[OF assms(1), of "mid @ ''**'' @ post"]
    findMarker_leftmost[OF assms(2), of post]
  by (simp add: matchBold_def)

lemma matchBold_none:
  assumes "\<not> (\<exists>pre mid post. rawText = pre @ ''**'' @ mid @ ''**'' @ post)"
  shows "matchBold rawText = None"
proof (rule ccontr)
  assume "matchBold rawText \<noteq> None"
  then obtain pre rest mid post where
    "findMarker rawText = Some (pre, rest)" "findMarker rest = Some (mid, post)"
    by (auto simp: matchBold_def split: option.splits)
  then have "rawText = pre @ ''**'' @ mid @ ''**'' @ post"
    using findMarker_sound by blast
  with assms show False by blast
qed


lemma findMarker_complete: "findMarker (u @ ''**'' @ v) \<noteq> None"
proof (induction u)
  case Nil
  then show ?case by simp
next
  case (Cons a p)
  obtain b cs where bc: "p @ ''**'' @ v = b # cs"
    by (cases "p @ ''**'' @ v") auto
  with Cons show ?case
    by (auto split: option.splits)
qed

lemma hasMarker_iff: "hasMarker s \<longleftrightarrow> findMarker s \<noteq> None"
proof
  assume "hasMarker s"
  then show "findMarker s \<noteq> None"
    unfolding hasMarker_def using findMarker_complete by blast
next
  assume "findMarker s \<noteq> None"
  then obtain u v where "findMarker s = Some (u, v)"
    by auto
  then have "s = u @ ''**'' @ v"
    by (rule findMarker_sound)
  then show "hasMarker s"
    unfolding hasMarker_def by blast
qed

subsection \<open>Decimal rendering and generated call identifiers\<close>

lemma showNat_unfold:
  "showNat n = (if n < 10 then [digitChar n] else showNat (n div 10) @ [digitChar (n mod 10)])"
  by (rule showNat.simps)

declare showNat.simps [simp del]

lemma digitChar_inj: "a < 10 \<Longrightarrow> b < 10 \<Longrightarrow> digitChar a = digitChar b \<Longrightarrow> a = b"
proof -
  assume a: "a < 10" and b: "b < 10" and eq: "digitChar a = digitChar b"
  have "distinct ''0123456789''" by simp
  moreover have "a < length ''0123456789''" "b < length ''0123456789''"
    using a b by simp_all
  ultimately show "a = b"
    using eq unfolding digitChar_def by (simp only: nth_eq_iff_index_eq)
qed

lemma digitChar_not_dash: "d < 10 \<Longrightarrow> digitChar d \<noteq> CHR ''-''"
proof -
  assume "d < 10"
  then have "d < length ''0123456789''" by simp
  then have "''0123456789'' ! d \<in> set ''0123456789''"
    by (rule nth_mem)
  moreover have "CHR ''-'' \<notin> set ''0123456789''" by simp
  ultimately show ?thesis
    unfolding digitChar_def by metis
qed

lemma showNat_no_dash: "CHR ''-'' \<notin> set (showNat n)"
proof (induction n rule: showNat.induct)
  case (1 n)
  show ?case
  proof (cases "n < 10")
    case True
    then show ?thesis
      using digitChar_not_dash[of n] by (subst showNat_unfold) auto
  next
    case False
    have "n mod 10 < 10" by simp
    then have "digitChar (n mod 10) \<noteq> CHR ''-''"
      by (rule digitChar_not_dash)
    with False 1 show ?thesis
      by (subst showNat_unfold) auto
  qed
qed

lemma showNat_length: "length (showNat n) = 1 \<longleftrightarrow> n < 10"
proof (cases "n < 10")
  case True
  then show ?thesis by (subst showNat_unfold) simp
next
  case False
  have "showNat (n div 10) \<noteq> []"
    by (subst showNat_unfold) simp
  with False show ?thesis
    by (subst showNat_unfold) (simp add: Suc_le_eq)
qed

lemma showNat_inj: "showNat n = showNat m \<Longrightarrow> n = m"
proof (induction n arbitrary: m rule: showNat.induct)
  case (1 n)
  show ?case
  proof (cases "n < 10")
    case True
    then have "length (showNat m) = 1"
      using "1.prems" showNat_length[of n] by simp
    then have m: "m < 10"
      using showNat_length[of m] by simp
    from "1.prems" True m have "digitChar n = digitChar m"
      by (simp add: showNat_unfold[of n] showNat_unfold[of m])
    with True m show ?thesis
      by (rule digitChar_inj)
  next
    case False
    then have "length (showNat m) \<noteq> 1"
      using "1.prems" showNat_length[of n] by simp
    then have m: "\<not> m < 10"
      using showNat_length[of m] by simp
    from "1.prems" False m
    have eq: "showNat (n div 10) @ [digitChar (n mod 10)] = showNat (m div 10) @ [digitChar (m mod 10)]"
      by (simp add: showNat_unfold[of n] showNat_unfold[of m])
    then have "showNat (n div 10) = showNat (m div 10)" and d: "digitChar (n mod 10) = digitChar (m mod 10)"
      by simp_all
    then have q: "n div 10 = m div 10"
      using "1.IH"[OF False] by blast
    have "n mod 10 = m mod 10"
      using d by (intro digitChar_inj) simp_all
    with q show ?thesis
      by (metis div_mult_mod_eq)
  qed
qed

lemma split_at_first:
  "c \<notin> set a \<Longrightarrow> c \<notin> set b \<Longrightarrow> a @ c # x = b @ c # y \<Longrightarrow> a = b \<and> x = y"
proof (induction a arbitrary: b)
  case Nil
  then show ?case by (cases b) auto
next
  case (Cons h a)
  then show ?case by (cases b) auto
qed

lemma split_at_last:
  assumes "c \<notin> set a" and "c \<notin> set b" and "x @ c # a = y @ c # b"
  shows "a = b \<and> x = y"
proof -
  from assms(3) have "rev (x @ c # a) = rev (y @ c # b)" by simp
  then have "rev a @ c # rev x = rev b @ c # rev y" by simp
  then have "rev a = rev b \<and> rev x = rev y"
    using assms(1,2) by (intro split_at_first[of c]) simp_all
  then show ?thesis by simp
qed

lemma generatedCallId_eq_iff:
  assumes "CHR ''-'' \<notin> set (drop 2 (randomBase16 env k1))"
    and "CHR ''-'' \<notin> set (drop 2 (randomBase16 env k2))"
  shows "generatedCallId env k1 n1 = generatedCallId env k2 n2 \<longleftrightarrow>
    templateName n1 = templateName n2 \<and> dateNow env k1 = dateNow env k2
    \<and> drop 2 (randomBase16 env k1) = drop 2 (randomBase16 env k2)"
proof
  assume eq: "generatedCallId env k1 n1 = generatedCallId env k2 n2"
  let ?s1 = "drop 2 (randomBase16 env k1)" and ?s2 = "drop 2 (randomBase16 env k2)"
  let ?d1 = "showNat (dateNow env k1)" and ?d2 = "showNat (dateNow env k2)"
  from eq have "(templateName n1 @ ''-'' @ ?d1) @ CHR ''-'' # ?s1
              = (templateName n2 @ ''-'' @ ?d2) @ CHR ''-'' # ?s2"
    by (simp add: generatedCallId_def templateName_def)
  from split_at_last[OF assms this]
  have s: "?s1 = ?s2" and "templateName n1 @ CHR ''-'' # ?d1 = templateName n2 @ CHR ''-'' # ?d2"
    by simp_all
  from split_at_last[OF showNat_no_dash showNat_no_dash this(2)]
  have "?d1 = ?d2" and n: "templateName n1 = templateName n2"
    by simp_all
  then have "dateNow env k1 = dateNow env k2"
    using showNat_inj by blast
  with s n show "templateName n1 = templateName n2 \<and> dateNow env k1 = dateNow env k2 \<and> ?s1 = ?s2"
    by simp
next
  assume "templateName n1 = templateName n2 \<and> dateNow env k1 = dateNow env k2
    \<and> drop 2 (randomBase16 env k1) = drop 2 (randomBase16 env k2)"
  then show "generatedCallId env k1 n1 = generatedCallId env k2 n2"
    by (simp add: generatedCallId_def templateName_def)
qed

lemma handlePendingFunctionCall_callId:
  "\<exists>r t. handlePendingFunctionCall env fnCall turn = (Some (ToolCallRequestEvent r), t)
     \<and> pendingToolCalls t = pendingToolCalls turn @ [r]
     \<and> callId r = (case fcId fnCall of
                     Some i \<Rightarrow> i
                   | None \<Rightarrow> generatedCallId env (idDraws turn) (fcName fnCall))"
  by (simp add: handlePendingFunctionCall_def Let_def split: option.splits)


subsection \<open>Claims about the Turn\<close>

text \<open>
  Claim C6, as stated, fails in its last part: a generated call identifier is unique only
  as far as the clock and the random source make it so. Two chunks, each with one function
  call that has no backend id and names the same tool, arriving while \<open>Date.now()\<close> returns
  the same value and \<open>Math.random()\<close> repeats, yield the same call identifier twice.
\<close>

theorem same_draws_same_callId_counterexample:
  "run frozenEnv neverAborted twoChunks newTurn =
     ([ToolCallRequestEvent lsGenerated, ToolCallRequestEvent lsGenerated],
      \<lparr>pendingToolCalls = [lsGenerated, lsGenerated], debugResponses = [lsChunk, lsChunk],
       idDraws = 2\<rparr>)"
  by (simp add: run_def twoChunks_def lsChunk_def lsCall_def frozenEnv_def neverAborted_def
      newTurn_def firstPart_def handlePendingFunctionCall_def generatedCallId_def
      lsGenerated_def showNat_unfold digitChar_def Let_def)

text \<open>
  Claim C6, amended: the call identifier of the emitted request is the backend's id when
  there is one, and otherwise the tool name, the timestamp in decimal and the random
  suffix, joined by dashes; two function calls without a backend id handled one after the
  other in a turn get distinct identifiers unless their printed tool names, their
  timestamps and their random suffixes all coincide (the suffixes, being base-16
  renderings, hold no dash).
\<close>

theorem callId_backend_or_generated:
  "(\<exists>r t. handlePendingFunctionCall env fnCall turn = (Some (ToolCallRequestEvent r), t)
       \<and> pendingToolCalls t = pendingToolCalls turn @ [r]
       \<and> callId r =
           (case fcId fnCall of
              Some i \<Rightarrow> i
            | None \<Rightarrow> templateName (fcName fnCall) @ ''-''
                        @ showNat (dateNow env (idDraws turn)) @ ''-''
                        @ drop 2 (randomBase16 env (idDraws turn))))
   \<and> (fcId f1 = None \<and> fcId f2 = None
       \<and> handlePendingFunctionCall env f1 turn = (Some (ToolCallRequestEvent r1), turn1)
       \<and> handlePendingFunctionCall env f2 turn1 = (Some (ToolCallRequestEvent r2), turn2)
       \<and> CHR ''-'' \<notin> set (drop 2 (randomBase16 env (idDraws turn)))
       \<and> CHR ''-'' \<notin> set (drop 2 (randomBase16 env (Suc (idDraws turn))))
      \<longrightarrow> (callId r1 = callId r2 \<longleftrightarrow>
             templateName (fcName f1) = templateName (fcName f2)
             \<and> dateNow env (idDraws turn) = dateNow env (Suc (idDraws turn))
             \<and> drop 2 (randomBase16 env (idDraws turn))
                 = drop 2 (randomBase16 env (Suc (idDraws turn)))))"
proof (intro conjI impI)
  show "\<exists>r t. handlePendingFunctionCall env fnCall turn = (Some (ToolCallRequestEvent r), t)
       \<and> pendingToolCalls t = pendingToolCalls turn @ [r]
       \<and> callId r =
           (case fcId fnCall of
              Some i \<Rightarrow> i
            | None \<Rightarrow> templateName (fcName fnCall) @ ''-''
                        @ showNat (dateNow env (idDraws turn)) @ ''-''
                        @ drop 2 (randomBase16 env (idDraws turn)))"
    using handlePendingFunctionCall_callId[of env fnCall turn]
    by (cases "fcId fnCall") (simp_all add: generatedCallId_def templateName_def)
next
  assume h: "fcId f1 = None \<and> fcId f2 = None
       \<and> handlePendingFunctionCall env f1 turn = (Some (ToolCallRequestEvent r1), turn1)
       \<and> handlePendingFunctionCall env f2 turn1 = (Some (ToolCallRequestEvent r2), turn2)
       \<and> CHR ''-'' \<notin> set (drop 2 (randomBase16 env (idDraws turn)))
       \<and> CHR ''-'' \<notin> set (drop 2 (randomBase16 env (Suc (idDraws turn))))"
  then have r1: "callId r1 = generatedCallId env (idDraws turn) (fcName f1)"
    and t1: "idDraws turn1 = Suc (idDraws turn)"
    by (auto simp: handlePendingFunctionCall_def Let_def)
  from h have "callId r2 = generatedCallId env (idDraws turn1) (fcName f2)"
    by (auto simp: handlePendingFunctionCall_def Let_def)
  with t1 have r2: "callId r2 = generatedCallId env (Suc (idDraws turn)) (fcName f2)"
    by simp
  from h have "CHR ''-'' \<notin> set (drop 2 (randomBase16 env (idDraws turn)))"
    and "CHR ''-'' \<notin> set (drop 2 (randomBase16 env (Suc (idDraws turn))))"
    by simp_all
  from generatedCallId_eq_iff[OF this, of "fcName f1" "fcName f2"] r1 r2
  show "callId r1 = callId r2 \<longleftrightarrow>
             templateName (fcName f1) = templateName (fcName f2)
             \<and> dateNow env (idDraws turn) = dateNow env (Suc (idDraws turn))
             \<and> drop 2 (randomBase16 env (idDraws turn))
                 = drop 2 (randomBase16 env (Suc (idDraws turn)))"
    by simp
qed

theorem callId_backend_or_generated_witness:
  "fcId lsCall = None
   \<and> handlePendingFunctionCall freshEnv lsCall newTurn
       = (Some (ToolCallRequestEvent lsGenerated),
          \<lparr>pendingToolCalls = [lsGenerated], debugResponses = [], idDraws = 1\<rparr>)
   \<and> handlePendingFunctionCall freshEnv lsCall
         \<lparr>pendingToolCalls = [lsGenerated], debugResponses = [], idDraws = 1\<rparr>
       = (Some (ToolCallRequestEvent (lsGenerated\<lparr>callId := ''ls-5-c4''\<rparr>)),
          \<lparr>pendingToolCalls = [lsGenerated, lsGenerated\<lparr>callId := ''ls-5-c4''\<rparr>],
           debugResponses = [], idDraws = 2\<rparr>)
   \<and> CHR ''-'' \<notin> set (drop 2 (randomBase16 freshEnv (idDraws newTurn)))
   \<and> CHR ''-'' \<notin> set (drop 2 (randomBase16 freshEnv (Suc (idDraws newTurn))))
   \<and> callId lsGenerated \<noteq> callId (lsGenerated\<lparr>callId := ''ls-5-c4''\<rparr>)"
  using callId_backend_or_generated [of freshEnv lsCall newTurn lsCall lsCall lsGenerated
      "\<lparr>pendingToolCalls = [lsGenerated], debugResponses = [], idDraws = 1\<rparr>"
      "lsGenerated\<lparr>callId := ''ls-5-c4''\<rparr>"
      "\<lparr>pendingToolCalls = [lsGenerated, lsGenerated\<lparr>callId := ''ls-5-c4''\<rparr>],
        debugResponses = [], idDraws = 2\<rparr>"]
  by (simp add: lsCall_def freshEnv_def newTurn_def handlePendingFunctionCall_def
      generatedCallId_def lsGenerated_def showNat_unfold digitChar_def Let_def)

text \<open>
  Claim C7, as stated, fails: both strings are trimmed, so a fragment with no marker pair
  that starts with a blank does not come back in full as the description.
\<close>

theorem thought_is_trimmed_counterexample:
  "parseThought '' plan'' = \<lparr>subject = [], description = ''plan''\<rparr>
   \<and> description (parseThought '' plan'') \<noteq> '' plan''"
  by (simp add: parseThought_def matchBold_def trim_def isWhiteSpace_def)

text \<open>
  Claim C7, amended: when the fragment holds a marker pair, the subject is the text
  between the first marker and the nearest marker after it, trimmed, and the description
  is the fragment with that first span and its markers removed, trimmed; when the fragment
  holds no marker pair, the subject is empty and the description is the fragment, trimmed.
  The loop of \<open>Turn.run\<close> yields a thought event with exactly these two strings for a chunk
  whose first part is a thought.
\<close>

theorem parseThought_first_bold_span_trimmed:
  "(rawText = pre @ ''**'' @ mid @ ''**'' @ post \<and> \<not> hasMarker (pre @ ''*'')
      \<and> \<not> hasMarker (mid @ ''*'')
    \<longrightarrow> parseThought rawText = \<lparr>subject = trim mid, description = trim (pre @ post)\<rparr>)
   \<and> (\<not> (\<exists>pre mid post. rawText = pre @ ''**'' @ mid @ ''**'' @ post)
    \<longrightarrow> parseThought rawText = \<lparr>subject = [], description = trim rawText\<rparr>)
   \<and> (firstPart resp = Some p \<and> thought p \<and> partText p = Some rawText \<and> \<not> aborted i
    \<longrightarrow> (\<exists>evs returned turn'.
          processChunks env aborted i (resp # rest) turn
            = (ThoughtEvent (parseThought rawText) # evs, returned, turn')))"
proof (intro conjI impI)
  assume "rawText = pre @ ''**'' @ mid @ ''**'' @ post \<and> \<not> hasMarker (pre @ ''*'')
      \<and> \<not> hasMarker (mid @ ''*'')"
  then show "parseThought rawText = \<lparr>subject = trim mid, description = trim (pre @ post)\<rparr>"
    using matchBold_first[of pre mid post] by (simp add: parseThought_def)
next
  assume "\<not> (\<exists>pre mid post. rawText = pre @ ''**'' @ mid @ ''**'' @ post)"
  then show "parseThought rawText = \<lparr>subject = [], description = trim rawText\<rparr>"
    using matchBold_none[of rawText] by (simp add: parseThought_def)
next
  assume "firstPart resp = Some p \<and> thought p \<and> partText p = Some rawText \<and> \<not> aborted i"
  then show "\<exists>evs returned turn'.
          processChunks env aborted i (resp # rest) turn
            = (ThoughtEvent (parseThought rawText) # evs, returned, turn')"
    by (simp add: Let_def split: prod.splits)
qed

theorem parseThought_first_bold_span_trimmed_witness:
  "''**Plan** read files '' = [] @ ''**'' @ ''Plan'' @ ''**'' @ '' read files ''
   \<and> \<not> hasMarker ([] @ ''*'') \<and> \<not> hasMarker (''Plan'' @ ''*'')
   \<and> parseThought ''**Plan** read files ''
       = \<lparr>subject = ''Plan'', description = ''read files''\<rparr>
   \<and> \<not> (\<exists>pre mid post. '' plan'' = pre @ ''**'' @ mid @ ''**'' @ post)
   \<and> parseThought '' plan'' = \<lparr>subject = [], description = ''plan''\<rparr>
   \<and> firstPart thoughtChunk = Some thoughtPart \<and> thought thoughtPart
   \<and> partText thoughtPart = Some ''**Plan** read files '' \<and> \<not> neverAborted 0
   \<and> (\<exists>evs returned turn'.
          processChunks frozenEnv neverAborted 0 (thoughtChunk # []) newTurn
            = (ThoughtEvent \<lparr>subject = ''Plan'', description = ''read files''\<rparr> # evs,
               returned, turn'))
   \<and> run frozenEnv neverAborted \<lparr>chunks = [thoughtChunk], failure = None\<rparr> newTurn
       = ([ThoughtEvent \<lparr>subject = ''Plan'', description = ''read files''\<rparr>],
          newTurn\<lparr>debugResponses := [thoughtChunk]\<rparr>)"
proof -
  have chunk: "firstPart thoughtChunk = Some thoughtPart" "thought thoughtPart"
    "partText thoughtPart = Some ''**Plan** read files ''" "\<not> neverAborted 0"
    by (simp_all add: firstPart_def thoughtChunk_def thoughtPart_def neverAborted_def
        modelContent_def)
  have a: "\<not> hasMarker ([] @ ''*'')" and b: "\<not> hasMarker (''Plan'' @ ''*'')"
    by (simp_all add: hasMarker_iff)
  have c: "\<not> (\<exists>pre mid post. '' plan'' = pre @ ''**'' @ mid @ ''**'' @ post)"
  proof
    assume "\<exists>pre mid post. '' plan'' = pre @ ''**'' @ mid @ ''**'' @ post"
    then have "hasMarker '' plan''"
      unfolding hasMarker_def by blast
    then show False
      by (simp add: hasMarker_iff)
  qed
  have "parseThought ''**Plan** read files ''
       = \<lparr>subject = ''Plan'', description = ''read files''\<rparr>"
    using parseThought_first_bold_span_trimmed
      [of "''**Plan** read files ''" "[]" "''Plan''" "'' read files ''"] a b
    by (simp add: trim_def isWhiteSpace_def)
  moreover have "parseThought '' plan'' = \<lparr>subject = [], description = ''plan''\<rparr>"
    using parseThought_first_bold_span_trimmed [of "'' plan''"] c
    by (simp add: trim_def isWhiteSpace_def)
  moreover have "\<exists>evs returned turn'.
          processChunks frozenEnv neverAborted 0 (thoughtChunk # []) newTurn
            = (ThoughtEvent (parseThought ''**Plan** read files '') # evs, returned, turn')"
    using parseThought_first_bold_span_trimmed
      [of "''**Plan** read files ''" "[]" "''Plan''" "'' read files ''" thoughtChunk thoughtPart
          neverAborted 0 frozenEnv "[]" newTurn] chunk
    by blast
  moreover have "run frozenEnv neverAborted \<lparr>chunks = [thoughtChunk], failure = None\<rparr> newTurn
       = ([ThoughtEvent (parseThought ''**Plan** read files '')],
          newTurn\<lparr>debugResponses := [thoughtChunk]\<rparr>)"
    using chunk by (simp add: run_def Let_def newTurn_def)
  ultimately show ?thesis
    using a b c chunk by simp
qed

section \<open>Properties of the driver loop\<close>

lemma budgets_step:
  "[b - 1] @ map (\<lambda>j. b - 1 - 1 - int j) [0..<n] = map (\<lambda>j. b - 1 - int j) [0..<Suc n]"
proof -
  have "map (\<lambda>j. b - 1 - int j) [0..<Suc n]
      = (b - 1 - int 0) # map (\<lambda>j. b - 1 - int (Suc j)) [0..<n]"
    by (simp only: map_upt_Suc)
  then show ?thesis
    by (simp add: algebra_simps)
qed

lemma withinBudget_refl_like:
  assumes "continuationBudgets st' = continuationBudgets st"
    and "length (requestsSent st') \<le> length (requestsSent st) + nat b"
    and "compressCalls st' \<le> compressCalls st + nat b"
    and "speakerChecks st' \<le> speakerChecks st + nat b"
  shows "withinBudget b st st'"
  unfolding withinBudget_def using assms by (intro exI[of _ 0]) simp

lemma thrownByHelper_compress:
  "tryCompressChat env k = Inl e \<Longrightarrow> compressCalls st \<le> k \<Longrightarrow> k < compressCalls st' \<Longrightarrow>
   thrownByHelper env st st' e"
  by (auto simp: thrownByHelper_def list_ex_iff)

lemma thrownByHelper_speaker:
  "checkNextSpeaker env k = Inl e \<Longrightarrow> speakerChecks st \<le> k \<Longrightarrow> k < speakerChecks st' \<Longrightarrow>
   thrownByHelper env st st' e"
  by (auto simp: thrownByHelper_def list_ex_iff)

lemma thrownByHelper_earlier:
  "thrownByHelper env st1 st' e \<Longrightarrow> compressCalls st \<le> compressCalls st1 \<Longrightarrow>
   speakerChecks st \<le> speakerChecks st1 \<Longrightarrow> thrownByHelper env st st' e"
  by (fastforce simp: thrownByHelper_def list_ex_iff)

lemma sendMessageStream_bounded:
  "0 \<le> turns \<Longrightarrow> nat (min turns MAX_TURNS) = m \<Longrightarrow>
   \<exists>evs res st'. sendMessageStream env req turns st = Some ((evs, res), st')
      \<and> withinBudget (min turns MAX_TURNS) st st'
      \<and> (\<forall>e. res = Inl e \<longrightarrow> thrownByHelper env st st' e)"
proof (induction m arbitrary: turns req st)
  case 0
  then have "min turns MAX_TURNS = 0"
    by (simp add: MAX_TURNS_def min_def split: if_splits)
  then show ?case
    by (subst sendMessageStream.simps) (simp add: Let_def withinBudget_refl_like)
next
  case (Suc m)
  let ?b = "min turns MAX_TURNS"
  have b: "?b = int (Suc m)" "?b \<noteq> 0"
    using Suc.prems by (auto simp: MAX_TURNS_def min_def split: if_splits)
  have nb: "nat ?b = Suc m" using Suc.prems by simp
  show ?case
  proof (cases "tryCompressChat env (compressCalls st)")
    case (Inl e)
    have "withinBudget ?b st (st\<lparr>compressCalls := Suc (compressCalls st)\<rparr>)"
      by (rule withinBudget_refl_like) (simp_all add: nb)
    moreover have "thrownByHelper env st (st\<lparr>compressCalls := Suc (compressCalls st)\<rparr>) e"
      using Inl by (rule thrownByHelper_compress) simp_all
    ultimately show ?thesis
      using Inl b by (subst sendMessageStream.simps) (simp add: Let_def)
  next
    case (Inr compressed)
    let ?st1 = "st\<lparr>compressCalls := Suc (compressCalls st)\<rparr>"
    let ?k = "length (requestsSent ?st1)"
    let ?ran = "run (turnEnv env ?k) (abortedDuring env ?k) (chatStream env ?k) newTurn"
    let ?st2 = "?st1\<lparr>requestsSent := requestsSent ?st1 @ [req]\<rparr>"
    let ?st3 = "?st2\<lparr>speakerChecks := Suc (speakerChecks ?st2)\<rparr>"
    have w2: "withinBudget ?b st ?st2"
      by (rule withinBudget_refl_like) (simp_all add: nb)
    have w3: "withinBudget ?b st ?st3"
      by (rule withinBudget_refl_like) (simp_all add: nb)
    show ?thesis
    proof (cases "pendingToolCalls (snd ?ran) = [] \<and> \<not> abortedAfter env ?k")
      case False
      with Inr b w2 show ?thesis
        by (subst sendMessageStream.simps) (auto simp: Let_def)
    next
      case True
      show ?thesis
      proof (cases "checkNextSpeaker env (speakerChecks ?st2)")
        case (Inl e)
        have "thrownByHelper env st ?st3 e"
          using Inl by (rule thrownByHelper_speaker) simp_all
        with Inl Inr b True w3 show ?thesis
          by (subst sendMessageStream.simps) (auto simp: Let_def)
      next
        case speaker: (Inr nextSpeakerCheck)
        show ?thesis
        proof (cases "nextSpeakerCheck = Some Model")
          case False
          with speaker Inr b True w3 show ?thesis
            by (subst sendMessageStream.simps) (auto simp: Let_def)
        next
          case model: True
          let ?st4 = "?st3\<lparr>continuationBudgets := continuationBudgets ?st3 @ [?b - 1]\<rparr>"
          have t': "0 \<le> ?b - 1" "nat (min (?b - 1) MAX_TURNS) = m" "min (?b - 1) MAX_TURNS = ?b - 1"
            using b by (auto simp: MAX_TURNS_def min_def split: if_splits)
          from Suc.IH[OF t'(1,2), of "[''Please continue.'']" ?st4]
          obtain evs res st' where inner:
            "sendMessageStream env [''Please continue.''] (?b - 1) ?st4 = Some ((evs, res), st')"
            "withinBudget (?b - 1) ?st4 st'"
            "\<forall>e. res = Inl e \<longrightarrow> thrownByHelper env ?st4 st' e"
            using t'(3) by auto
          from inner(2) obtain n where n: "n \<le> nat (?b - 1)"
            "continuationBudgets st' = continuationBudgets ?st4 @ map (\<lambda>j. ?b - 1 - 1 - int j) [0..<n]"
            "length (requestsSent st') \<le> length (requestsSent ?st4) + nat (?b - 1)"
            "compressCalls st' \<le> compressCalls ?st4 + nat (?b - 1)"
            "speakerChecks st' \<le> speakerChecks ?st4 + nat (?b - 1)"
            unfolding withinBudget_def by blast
          have "continuationBudgets st' = continuationBudgets st @ map (\<lambda>j. ?b - 1 - int j) [0..<Suc n]"
            using n(2) budgets_step[of ?b n] by simp
          moreover have "Suc n \<le> nat ?b"
            using n(1) b by simp
          moreover have "length (requestsSent st') \<le> length (requestsSent st) + nat ?b"
            "compressCalls st' \<le> compressCalls st + nat ?b"
            "speakerChecks st' \<le> speakerChecks st + nat ?b"
            using n(3,4,5) b by simp_all
          ultimately have w: "withinBudget ?b st st'"
            unfolding withinBudget_def by blast
          have thrown: "thrownByHelper env st st' e" if "res = Inl e" for e
            using inner(3) that by (auto intro: thrownByHelper_earlier)
          have "sendMessageStream env req turns st =
                  Some ((((case compressed of None \<Rightarrow> [] | Some info \<Rightarrow> [ChatCompressedEvent info])
                          @ fst ?ran @ evs,
                         (case res of Inl e \<Rightarrow> Inl e | Inr innerTurn \<Rightarrow> Inr (snd ?ran))), st'))"
            using Inr b True speaker model inner(1)
            by (subst sendMessageStream.simps) (simp add: Let_def)
          moreover have "\<forall>e. (case res of Inl e \<Rightarrow> Inl e | Inr innerTurn \<Rightarrow> Inr (snd ?ran)) = Inl e
                           \<longrightarrow> thrownByHelper env st st' e"
            using thrown by (cases res) auto
          ultimately show ?thesis
            using w by blast
        qed
      qed
    qed
  qed
qed

lemma chattyEnv_fields:
  "tryCompressChat chattyEnv k = Inr None"
  "chatStream chattyEnv k = \<lparr>chunks = [], failure = None\<rparr>"
  "abortedAfter chattyEnv k = False"
  "checkNextSpeaker chattyEnv k = Inr (Some Model)"
  by (simp_all add: chattyEnv_def)

lemma run_nothing: "run tenv ab \<lparr>chunks = [], failure = None\<rparr> turn = ([], turn)"
  by (simp add: run_def)

lemma budget_one_run:
  "sendMessageStream chattyEnv [''hi''] 1 freshClient =
     Some (([], Inr newTurn),
           \<lparr>requestsSent = [[''hi'']], compressCalls = 1, speakerChecks = 1,
            continuationBudgets = [0]\<rparr>)"
proof -
  have inner: "sendMessageStream chattyEnv [''Please continue.''] 0 st = Some (([], Inr newTurn), st)" for st
    by (subst sendMessageStream.simps) (simp add: MAX_TURNS_def)
  show ?thesis
    by (subst sendMessageStream.simps)
      (simp add: MAX_TURNS_def chattyEnv_fields run_nothing inner Let_def newTurn_def
        freshClient_def)
qed

lemma budget_one_thrown:
  "sendMessageStream crampedEnv [''hi''] 1 freshClient =
     Some (([], Inl (ErrorObj ''compression failed'')),
           \<lparr>requestsSent = [], compressCalls = 1, speakerChecks = 0,
            continuationBudgets = []\<rparr>)"
  by (subst sendMessageStream.simps)
    (simp add: MAX_TURNS_def crampedEnv_def chattyEnv_def Let_def freshClient_def)

subsection \<open>Claim about the driver loop\<close>

text \<open>
  Claim C4. A turn budget is a count of turns: the default is \<open>MAX_TURNS\<close>, and a
  continuation is given \<open>boundedTurns - 1\<close>, which is shown here to be a count again; so
  the claim is stated for the budgets \<open>t \<ge> 0\<close>. For every such call the generator ends.
  The number of recursive continuations is at most \<open>min(t, 100)\<close>, and so is the number of
  exchanges with the backend of each kind; the continuations are made with the budgets
  \<open>min(t, 100) - 1\<close>, \<open>min(t, 100) - 2\<close>, ..., one unit less each time, none below zero. The
  generator ends by returning its Turn, unless a call of \<open>tryCompressChat\<close> or of
  \<open>checkNextSpeaker\<close> made on the way throws: nothing catches that, and it leaves the
  generator. A call with budget zero returns at once, with no event, no backend call and
  no error.
\<close>

theorem budget_bounds_continuations:
  assumes "0 \<le> turns"
  shows "(\<exists>evs res st' n.
            sendMessageStream env req turns st = Some ((evs, res), st')
          \<and> n \<le> nat (min turns MAX_TURNS)
          \<and> continuationBudgets st'
              = continuationBudgets st @ map (\<lambda>j. min turns MAX_TURNS - 1 - int j) [0..<n]
          \<and> list_all (\<lambda>t. 0 \<le> t) (map (\<lambda>j. min turns MAX_TURNS - 1 - int j) [0..<n])
          \<and> length (requestsSent st') \<le> length (requestsSent st) + nat (min turns MAX_TURNS)
          \<and> compressCalls st' \<le> compressCalls st + nat (min turns MAX_TURNS)
          \<and> speakerChecks st' \<le> speakerChecks st + nat (min turns MAX_TURNS)
          \<and> (\<forall>e. res = Inl e \<longrightarrow> thrownByHelper env st st' e))
       \<and> sendMessageStream env req 0 st = Some (([], Inr newTurn), st)
       \<and> MAX_TURNS = 100"
proof -
  from sendMessageStream_bounded[OF assms refl, of env req st]
  obtain evs res st' n where r:
    "sendMessageStream env req turns st = Some ((evs, res), st')"
    "n \<le> nat (min turns MAX_TURNS)"
    "continuationBudgets st'
       = continuationBudgets st @ map (\<lambda>j. min turns MAX_TURNS - 1 - int j) [0..<n]"
    "length (requestsSent st') \<le> length (requestsSent st) + nat (min turns MAX_TURNS)"
    "compressCalls st' \<le> compressCalls st + nat (min turns MAX_TURNS)"
    "speakerChecks st' \<le> speakerChecks st + nat (min turns MAX_TURNS)"
    "\<forall>e. res = Inl e \<longrightarrow> thrownByHelper env st st' e"
    unfolding withinBudget_def by blast
  have counts: "list_all (\<lambda>t. 0 \<le> t) (map (\<lambda>j. min turns MAX_TURNS - 1 - int j) [0..<n])"
    using r(2) by (auto simp: list_all_iff)
  have zero: "sendMessageStream env req 0 st = Some (([], Inr newTurn), st)"
    by (subst sendMessageStream.simps) (simp add: MAX_TURNS_def)
  have "MAX_TURNS = 100"
    by (simp add: MAX_TURNS_def)
  with r counts zero show ?thesis
    by blast
qed

theorem budget_bounds_continuations_witness:
  "(0::int) \<le> 1
   \<and> sendMessageStream chattyEnv [''hi''] 1 freshClient =
       Some (([], Inr newTurn),
             \<lparr>requestsSent = [[''hi'']], compressCalls = 1, speakerChecks = 1,
              continuationBudgets = [0]\<rparr>)
   \<and> sendMessageStream crampedEnv [''hi''] 1 freshClient =
       Some (([], Inl (ErrorObj ''compression failed'')),
             \<lparr>requestsSent = [], compressCalls = 1, speakerChecks = 0,
              continuationBudgets = []\<rparr>)
   \<and> thrownByHelper crampedEnv freshClient
       \<lparr>requestsSent = [], compressCalls = 1, speakerChecks = 0, continuationBudgets = []\<rparr>
       (ErrorObj ''compression failed'')
   \<and> sendMessageStream chattyEnv [''hi''] 0 freshClient = Some (([], Inr newTurn), freshClient)"
proof -
  from budget_bounds_continuations [of 1 crampedEnv "[''hi'']" freshClient]
  have "thrownByHelper crampedEnv freshClient
       \<lparr>requestsSent = [], compressCalls = 1, speakerChecks = 0, continuationBudgets = []\<rparr>
       (ErrorObj ''compression failed'')"
    unfolding budget_one_thrown by simp
  moreover from budget_bounds_continuations [of 1 chattyEnv "[''hi'']" freshClient]
  have "sendMessageStream chattyEnv [''hi''] 0 freshClient = Some (([], Inr newTurn), freshClient)"
    by simp
  ultimately show ?thesis
    using budget_one_run budget_one_thrown by simp
qed

section \<open>Properties of the agents\<close>

subsection \<open>Lines, blanks and the plan's next steps\<close>

lemma trim_nonempty_iff: "trim s \<noteq> [] \<longleftrightarrow> (\<exists>c \<in> set s. \<not> isWhiteSpace c)"
proof -
  have "trim s \<noteq> [] \<longleftrightarrow> (\<exists>c \<in> set (dropWhile isWhiteSpace s). \<not> isWhiteSpace c)"
    by (auto simp: trim_def dropWhile_eq_Nil_conv)
  also have "\<dots> \<longleftrightarrow> (\<exists>c \<in> set s. \<not> isWhiteSpace c)"
  proof
    assume "\<exists>c \<in> set (dropWhile isWhiteSpace s). \<not> isWhiteSpace c"
    then show "\<exists>c \<in> set s. \<not> isWhiteSpace c"
      using set_dropWhileD by fastforce
  next
    assume "\<exists>c \<in> set s. \<not> isWhiteSpace c"
    then have "dropWhile isWhiteSpace s \<noteq> []"
      by (auto simp: dropWhile_eq_Nil_conv)
    then have "\<not> isWhiteSpace (hd (dropWhile isWhiteSpace s))"
      by (rule hd_dropWhile)
    moreover have "hd (dropWhile isWhiteSpace s) \<in> set (dropWhile isWhiteSpace s)"
      using \<open>dropWhile isWhiteSpace s \<noteq> []\<close> by simp
    ultimately show "\<exists>c \<in> set (dropWhile isWhiteSpace s). \<not> isWhiteSpace c"
      by blast
  qed
  finally show ?thesis .
qed

lemma splitLines_nonempty: "splitLines s \<noteq> []"
  by (induction s) (auto split: list.splits)

lemma splitLines_visible:
  "(\<exists>l \<in> set (splitLines s). \<exists>c \<in> set l. \<not> isWhiteSpace c) \<longleftrightarrow> (\<exists>c \<in> set s. \<not> isWhiteSpace c)"
proof (induction s)
  case Nil
  then show ?case by simp
next
  case (Cons a s)
  show ?case
  proof (cases "a = CHR 0x0A")
    case True
    then have "isWhiteSpace a" by (simp add: isWhiteSpace_def)
    with True Cons show ?thesis by simp
  next
    case False
    obtain l ls where sp: "splitLines s = l # ls"
      using splitLines_nonempty[of s] by (cases "splitLines s") auto
    with False Cons show ?thesis by auto
  qed
qed

lemma nextSteps_nonempty_iff:
  "filter (\<lambda>step. trim step \<noteq> []) (splitLines p) \<noteq> [] \<longleftrightarrow> (\<exists>c \<in> set p. \<not> isWhiteSpace c)"
proof -
  have "filter (\<lambda>step. trim step \<noteq> []) (splitLines p) \<noteq> []
        \<longleftrightarrow> (\<exists>l \<in> set (splitLines p). trim l \<noteq> [])"
    by (simp add: filter_empty_conv)
  also have "\<dots> \<longleftrightarrow> (\<exists>l \<in> set (splitLines p). \<exists>c \<in> set l. \<not> isWhiteSpace c)"
    by (simp add: trim_nonempty_iff)
  also have "\<dots> \<longleftrightarrow> (\<exists>c \<in> set p. \<not> isWhiteSpace c)"
    by (rule splitLines_visible)
  finally show ?thesis .
qed

lemma handlePlanningRequest_returns:
  assumes "generateContent env (llmCalls w)
             [userContent (planningPrompt (situation (body req)) (availableTools (body req)))]
           = Inr response"
  shows "\<exists>resp w'. handlePlanningRequest env req w = (Inr resp, w')
      \<and> resumePlanningRequest env req (Inr response) (w\<lparr>llmCalls := Suc (llmCalls w)\<rparr>)
          = (Inr resp, w')
      \<and> messageType resp = PLANNING_RESPONSE
      \<and> fromAgent resp = MAIN \<and> toAgent resp = TOOLS
      \<and> plan (body resp) = extractResponseText response
      \<and> nextSteps (body resp)
          = filter (\<lambda>step. trim step \<noteq> []) (splitLines (extractResponseText response))"
  using assms
  by (simp add: handlePlanningRequest_def startPlanningRequest_def resumePlanningRequest_def
      callGenerateContent_def stamp_def Let_def extractPlanFromResponse_def)

lemma extract_textResponse: "t \<noteq> [] \<Longrightarrow> extractResponseText (textResponse t) = t"
  by (simp add: extractResponseText_def textResponse_def modelContent_def)

subsection \<open>Sending on a bus\<close>

lemma pushMessage_fields:
  "messageHistory (mainAgentBus (pushMessage MAIN m orch)) = messageHistory (mainAgentBus orch) @ [m]"
  "messageHistory (toolsAgentBus (pushMessage MAIN m orch)) = messageHistory (toolsAgentBus orch)"
  "messageHistory (toolsAgentBus (pushMessage TOOLS m orch)) = messageHistory (toolsAgentBus orch) @ [m]"
  "messageHistory (mainAgentBus (pushMessage TOOLS m orch)) = messageHistory (mainAgentBus orch)"
  "pendingListeners (pushMessage owner m orch) = pendingListeners orch"
  "isInitialized (pushMessage owner m orch) = isInitialized orch"
  "mainAgent (pushMessage owner m orch) = mainAgent orch"
  "toolsAgent (pushMessage owner m orch) = toolsAgent orch"
  by (simp_all add: pushMessage_def split: AgentType.splits)

lemma sendMessage_planning_request:
  assumes "messageType req = PLANNING_REQUEST" and "toAgent req = MAIN"
  shows "sendMessage env TOOLS req orch w =
     ((pushMessage TOOLS req orch)
        \<lparr>pendingListeners := pendingListeners orch
           @ [PlanningTask req
                (generateContent env (llmCalls w)
                   [userContent (planningPrompt (situation (body req))
                                   (availableTools (body req)))])]\<rparr>,
      w\<lparr>llmCalls := Suc (llmCalls w)\<rparr>)"
  using assms
  by (simp add: sendMessage_def toolsBusListener_def startPlanningRequest_def
      callGenerateContent_def pushMessage_fields)

lemma sendMessage_main_unanswered:
  assumes "messageType m \<noteq> TOOL_EXECUTION_REQUEST"
  shows "sendMessage env MAIN m orch w = (pushMessage MAIN m orch, w)"
  using assms
  by (cases "messageType m") (simp_all add: sendMessage_def mainBusListener_def)

subsection \<open>The tools agent's batch\<close>

lemma schedule_empty_batch:
  "\<not> isRunning s \<Longrightarrow> schedule now ab (Many []) s = Inr s"
proof -
  assume idle: "\<not> isRunning s"
  then have "filter (\<lambda>call. status call = Scheduled) (toolCalls s) = []"
    by (auto simp: isRunning_def list_ex_iff isTerminal_def filter_empty_conv)
  with idle show ?thesis
    by (simp add: schedule_def attemptExecutionOfScheduledCalls_def)
qed

lemma schedule_empty_cases:
  "schedule now ab (Many []) s = (if isRunning s then Inl alreadyRunning else Inr s)"
  using schedule_empty_batch[of s now ab] by (simp add: schedule_def)

lemma tryToolExecution_batch:
  "tryToolExecution env req settled agent w = (res, agent', w') \<Longrightarrow>
   toolScheduler agent' = toolScheduler agent \<and> (\<forall>calls. res = Inr calls \<longrightarrow> calls = [])"
  by (auto simp: tryToolExecution_def analyzeAndCreateToolCalls_def callGenerateContent_def
      schedule_empty_cases Let_def
      split: prod.splits option.splits sum.splits if_splits)

lemma idle_not_running: "\<not> isRunning idleScheduler"
  by (simp add: isRunning_def idleScheduler_def)

text \<open>
  Whatever the request, the surroundings and the agent's state, the handler of a
  tool-execution request returns a tool-execution response from the tools agent to the
  main agent and throws nothing: when a step of the \<open>try\<close> block throws, the response
  has \<open>success = false\<close> and \<open>error\<close> is the message of the error thrown (\<open>Unknown error\<close>
  for a value that is not an \<open>Error\<close>). In both cases \<open>toolResults\<close> is empty and the
  scheduler is as it was.
\<close>

lemma handleToolExecutionRequest_replies:
  "\<exists>resp sent agent' w'.
      handleToolExecutionRequest env req agent w = (Inr resp, sent, agent', w')
    \<and> messageType resp = TOOL_EXECUTION_RESPONSE
    \<and> fromAgent resp = TOOLS \<and> toAgent resp = MAIN
    \<and> toolResults (body resp) = []
    \<and> toolScheduler agent' = toolScheduler agent
    \<and> (case fst (tryToolExecution env req
                    (fst (startToolExecutionRequest env agent w)) agent
                    (snd (snd (startToolExecutionRequest env agent w)))) of
          Inr calls \<Rightarrow> success (body resp) \<and> error (body resp) = None
        | Inl e \<Rightarrow> \<not> success (body resp) \<and> error (body resp) = Some (errorMessage e))"
proof -
  obtain settled sent w1 where s: "startToolExecutionRequest env agent w = (settled, sent, w1)"
    by (metis prod_cases3)
  obtain res agent1 w2 where t: "tryToolExecution env req settled agent w1 = (res, agent1, w2)"
    by (metis prod_cases3)
  from tryToolExecution_batch[OF t] have same: "toolScheduler agent1 = toolScheduler agent"
    by simp
  show ?thesis
    using s t same
    by (cases res)
      (simp_all add: handleToolExecutionRequest_def resumeToolExecutionRequest_def
        toolResponse_def stamp_def)
qed

lemma main_fails:
  "fst (mainHandleUserInput failingEnv ''hello'' (mainAgent readyOrchestrator) freshWorld)
     = Inl (ErrorObj ''quota exceeded'')"
  by (simp add: mainHandleUserInput_def readyOrchestrator_def callGenerateContent_def
      failingEnv_def Let_def)

subsection \<open>Claims about the agents\<close>

text \<open>
  Claim C5 does not hold of the code: it says that the response to a tool-execution
  request carries every terminal record of the batch, and the batch is to be made of the
  requested tool calls. The handler does not read \<open>request.toolCalls\<close>: it schedules the
  list \<open>analyzeAndCreateToolCalls\<close> returns, which is always empty ("this would need to
  be implemented"), and returns a placeholder with the literal \<open>toolResults: []\<close>. Here
  the request names the registered tool \<open>ls\<close>, the backend answers, and the scheduler is
  idle: the reply has \<open>success = true\<close> and no result, the scheduler holds no record, and
  \<open>execute\<close> was never invoked. \<open>schedule\<close> on the requested calls would have started
  \<open>ls\<close>, and once its promise resolves the batch has one terminal record, with a result
  for the response to carry.
\<close>

theorem requested_tool_call_is_dropped:
  "requestedToolCalls (body lsExecutionRequest) = [lsRequest]
   \<and> toolRegistry (toolScheduler idleToolsAgent) ''ls'' = Some lsTool
   \<and> toolsProcessMessage (replyingEnv ''ok'') lsExecutionRequest idleToolsAgent freshWorld
       = (Inr (Some placeholderResponse), [], idleToolsAgent, \<lparr>llmCalls = 1, clockReads = 2\<rparr>)
   \<and> success (body placeholderResponse)
   \<and> toolResults (body placeholderResponse) = []
   \<and> toolCalls (toolScheduler idleToolsAgent) = []
   \<and> executeInvocations (toolScheduler idleToolsAgent) = []
   \<and> schedule clock7 False (Many (requestedToolCalls (body lsExecutionRequest))) idleScheduler
       = Inr busyScheduler
   \<and> terminalResults
         (toolCalls (runEvents False
            [Settle 0 (Resolved \<lparr>llmContent = ''a.txt'', returnDisplay = ''1 file''\<rparr>)]
            busyScheduler))
       = [ResponseInfo ''c1'' (ConvertToFunctionResponse ''ls'' ''c1'' ''a.txt'') ''1 file'' None]"
proof -
  have run: "toolsProcessMessage (replyingEnv ''ok'') lsExecutionRequest idleToolsAgent freshWorld
       = (Inr (Some placeholderResponse), [], idleToolsAgent, \<lparr>llmCalls = 1, clockReads = 2\<rparr>)"
    by (simp add: toolsProcessMessage_def lsExecutionRequest_def handleToolExecutionRequest_def
        startToolExecutionRequest_def sendStatusUpdate_def idleToolsAgent_def
        resumeToolExecutionRequest_def tryToolExecution_def analyzeAndCreateToolCalls_def
        callGenerateContent_def replyingEnv_def schedule_empty_cases idle_not_running
        toolResponse_def stamp_def freshWorld_def placeholderResponse_def showNat_unfold
        digitChar_def Let_def)
  have sched: "schedule clock7 False (Many (requestedToolCalls (body lsExecutionRequest)))
        idleScheduler = Inr busyScheduler"
    by (simp add: lsExecutionRequest_def schedule_def isRunning_def idleScheduler_def
        busyScheduler_def lsScheduled_def lsRegistry_def clock7_def enumerate_eq_zip
        newToolCall_def lsRequest_def processToolCall_def setStatusInternal_def isTerminal_def
        attemptExecutionOfScheduledCalls_def Let_def)
  have rest: "requestedToolCalls (body lsExecutionRequest) = [lsRequest]"
    "toolRegistry (toolScheduler idleToolsAgent) ''ls'' = Some lsTool"
    "success (body placeholderResponse)"
    "toolResults (body placeholderResponse) = []"
    "toolCalls (toolScheduler idleToolsAgent) = []"
    "executeInvocations (toolScheduler idleToolsAgent) = []"
    by (simp_all add: lsExecutionRequest_def idleToolsAgent_def idleScheduler_def
        lsRegistry_def placeholderResponse_def)
  have finished: "terminalResults
         (toolCalls (runEvents False
            [Settle 0 (Resolved \<lparr>llmContent = ''a.txt'', returnDisplay = ''1 file''\<rparr>)]
            busyScheduler))
       = [ResponseInfo ''c1'' (ConvertToFunctionResponse ''ls'' ''c1'' ''a.txt'') ''1 file'' None]"
    by (simp add: terminalResults_def busyScheduler_def lsScheduled_def lsRequest_def
        onExecuteSettled_def setStatusInternal_def isTerminal_def Let_def)
  from run sched rest finished show ?thesis by simp
qed

text \<open>
  Claim C8, as stated, fails in its last part: \<open>nextSteps\<close> keeps the lines of the plan
  that are not blank, so a plan text that is not empty but blank (here one space) gives an
  empty list.
\<close>

theorem blank_plan_counterexample:
  "handlePlanningRequest (replyingEnv '' '') planningRequest freshWorld
     = (Inr blankPlan, \<lparr>llmCalls = 1, clockReads = 2\<rparr>)
   \<and> plan (body blankPlan) = '' '' \<and> nextSteps (body blankPlan) = []"
  by (simp add: handlePlanningRequest_def startPlanningRequest_def resumePlanningRequest_def
      callGenerateContent_def replyingEnv_def
      textResponse_def modelContent_def extractResponseText_def freshWorld_def stamp_def
      planningRequest_def blankPlan_def extractPlanFromResponse_def
      extractToolsFromResponse_def includesStr_def toLowerCase_def lowerChar_def
      upperChars_def lowerChars_def trim_def isWhiteSpace_def showNat_unfold digitChar_def
      upt_rec Let_def)

text \<open>
  Claim C8, amended: for every planning request handed to the main agent for which
  \<open>generateContent\<close> returns, \<open>processMessage\<close> returns exactly one message, a planning
  response from the main agent addressed to the tools agent (the sender of planning
  requests), whose \<open>nextSteps\<close> is non-empty exactly when the plan text holds a
  character that is not white space. On the buses: such a request, addressed to the main
  agent and sent on the tools agent's bus, is appended to that bus's history, and the
  listener takes it as far as the call of \<open>generateContent\<close>; resumed, the listener sends
  exactly this one response on the main agent's bus and nothing is left to do for it,
  since the tools agent returns nothing for it.
\<close>

theorem planning_request_answered_once:
  assumes "generateContent env (llmCalls w)
             [userContent (planningPrompt (situation (body req)) (availableTools (body req)))]
           = Inr response"
    and "messageType req = PLANNING_REQUEST"
  shows "\<exists>resp w'. mainProcessMessage env req agent w = (Inr (Some resp), agent, w')
      \<and> messageType resp = PLANNING_RESPONSE
      \<and> fromAgent resp = MAIN \<and> toAgent resp = TOOLS
      \<and> plan (body resp) = extractResponseText response
      \<and> (nextSteps (body resp) \<noteq> [] \<longleftrightarrow> (\<exists>c \<in> set (plan (body resp)). \<not> isWhiteSpace c))
      \<and> (toAgent req = MAIN
          \<longrightarrow> (\<exists>asked. sendMessage env TOOLS req orch w
                           = (asked, w\<lparr>llmCalls := Suc (llmCalls w)\<rparr>)
                \<and> messageHistory (toolsAgentBus asked) = messageHistory (toolsAgentBus orch) @ [req]
                \<and> messageHistory (mainAgentBus asked) = messageHistory (mainAgentBus orch)
                \<and> pendingListeners asked
                    = pendingListeners orch @ [PlanningTask req (Inr response)]))
      \<and> (pendingListeners queued = PlanningTask req (Inr response) # rest
          \<longrightarrow> (\<exists>orch'. runListener env queued (w\<lparr>llmCalls := Suc (llmCalls w)\<rparr>) = (orch', w')
                \<and> messageHistory (mainAgentBus orch')
                    = messageHistory (mainAgentBus queued) @ [resp]
                \<and> messageHistory (toolsAgentBus orch') = messageHistory (toolsAgentBus queued)
                \<and> pendingListeners orch' = rest))
      \<and> toolsProcessMessage env resp tagent w' = (Inr None, [], tagent, w')"
proof -
  from handlePlanningRequest_returns[OF assms(1)] obtain resp w' where r:
    "handlePlanningRequest env req w = (Inr resp, w')"
    "resumePlanningRequest env req (Inr response) (w\<lparr>llmCalls := Suc (llmCalls w)\<rparr>)
       = (Inr resp, w')"
    "messageType resp = PLANNING_RESPONSE"
    "fromAgent resp = MAIN" "toAgent resp = TOOLS"
    "plan (body resp) = extractResponseText response"
    "nextSteps (body resp)
          = filter (\<lambda>step. trim step \<noteq> []) (splitLines (extractResponseText response))"
    by blast
  have pm: "mainProcessMessage env req agent w = (Inr (Some resp), agent, w')"
    using r(1) assms(2) by (simp add: mainProcessMessage_def)
  have steps: "nextSteps (body resp) \<noteq> [] \<longleftrightarrow> (\<exists>c \<in> set (plan (body resp)). \<not> isWhiteSpace c)"
    using r(6,7) nextSteps_nonempty_iff[of "extractResponseText response"] by simp
  have sent: "\<exists>asked. sendMessage env TOOLS req orch w
                           = (asked, w\<lparr>llmCalls := Suc (llmCalls w)\<rparr>)
                \<and> messageHistory (toolsAgentBus asked) = messageHistory (toolsAgentBus orch) @ [req]
                \<and> messageHistory (mainAgentBus asked) = messageHistory (mainAgentBus orch)
                \<and> pendingListeners asked
                    = pendingListeners orch @ [PlanningTask req (Inr response)]"
    if "toAgent req = MAIN"
    using sendMessage_planning_request[OF assms(2) that, of env orch w] assms(1)
    by (simp add: pushMessage_fields)
  have answer: "sendMessage env MAIN resp o1 w' = (pushMessage MAIN resp o1, w')" for o1
    using r(3) by (intro sendMessage_main_unanswered) simp
  have bus: "\<exists>orch'. runListener env queued (w\<lparr>llmCalls := Suc (llmCalls w)\<rparr>) = (orch', w')
                \<and> messageHistory (mainAgentBus orch')
                    = messageHistory (mainAgentBus queued) @ [resp]
                \<and> messageHistory (toolsAgentBus orch') = messageHistory (toolsAgentBus queued)
                \<and> pendingListeners orch' = rest"
    if "pendingListeners queued = PlanningTask req (Inr response) # rest"
    using that r(2) answer by (simp add: runListener_def Let_def pushMessage_fields)
  have ignored: "toolsProcessMessage env resp tagent w' = (Inr None, [], tagent, w')"
    using r(3) by (simp add: toolsProcessMessage_def)
  from pm r(3,4,5,6) steps sent bus ignored show ?thesis
    by blast
qed

theorem planning_request_answered_once_witness:
  "generateContent (replyingEnv ''ok'') (llmCalls freshWorld)
      [userContent (planningPrompt (situation (body planningRequest))
                      (availableTools (body planningRequest)))]
     = Inr (textResponse ''ok'')
   \<and> messageType planningRequest = PLANNING_REQUEST
   \<and> toAgent planningRequest = MAIN
   \<and> sendMessage (replyingEnv ''ok'') TOOLS planningRequest readyOrchestrator freshWorld
       = (askedOrchestrator, \<lparr>llmCalls = 1, clockReads = 0\<rparr>)
   \<and> pendingListeners askedOrchestrator
       = PlanningTask planningRequest (Inr (textResponse ''ok'')) # []
   \<and> (\<exists>resp w'.
         mainProcessMessage (replyingEnv ''ok'') planningRequest (mainAgent askedOrchestrator)
             freshWorld
           = (Inr (Some resp), mainAgent askedOrchestrator, w')
       \<and> messageType resp = PLANNING_RESPONSE
       \<and> toAgent resp = TOOLS
       \<and> plan (body resp) = ''ok''
       \<and> nextSteps (body resp) \<noteq> []
       \<and> (\<exists>orch'. runListener (replyingEnv ''ok'') askedOrchestrator
                      \<lparr>llmCalls = 1, clockReads = 0\<rparr> = (orch', w')
             \<and> messageHistory (mainAgentBus orch') = [resp]
             \<and> messageHistory (toolsAgentBus orch') = [planningRequest]
             \<and> pendingListeners orch' = [])
       \<and> toolsProcessMessage (replyingEnv ''ok'') resp idleToolsAgent w'
           = (Inr None, [], idleToolsAgent, w'))"
proof -
  have a: "generateContent (replyingEnv ''ok'') (llmCalls freshWorld)
      [userContent (planningPrompt (situation (body planningRequest))
                      (availableTools (body planningRequest)))]
     = Inr (textResponse ''ok'')"
    by (simp add: replyingEnv_def)
  have b: "messageType planningRequest = PLANNING_REQUEST"
    by (simp add: planningRequest_def)
  have c: "toAgent planningRequest = MAIN"
    "pendingListeners askedOrchestrator
       = PlanningTask planningRequest (Inr (textResponse ''ok'')) # []"
    "messageHistory (mainAgentBus askedOrchestrator) = []"
    "messageHistory (toolsAgentBus askedOrchestrator) = [planningRequest]"
    by (simp_all add: planningRequest_def askedOrchestrator_def readyOrchestrator_def
        newBus_def)
  have d: "\<exists>ch \<in> set ''ok''. \<not> isWhiteSpace ch"
    by (simp add: isWhiteSpace_def)
  have e: "sendMessage (replyingEnv ''ok'') TOOLS planningRequest readyOrchestrator freshWorld
       = (askedOrchestrator, \<lparr>llmCalls = 1, clockReads = 0\<rparr>)"
    unfolding sendMessage_planning_request[OF b c(1)]
    by (simp add: replyingEnv_def askedOrchestrator_def readyOrchestrator_def pushMessage_def
        newBus_def freshWorld_def)
  have f: "freshWorld\<lparr>llmCalls := Suc (llmCalls freshWorld)\<rparr> = \<lparr>llmCalls = 1, clockReads = 0\<rparr>"
    by (simp add: freshWorld_def)
  from planning_request_answered_once
    [OF a b, where agent = "mainAgent askedOrchestrator" and orch = readyOrchestrator
       and queued = askedOrchestrator and rest = "[]" and tagent = idleToolsAgent]
  show ?thesis
    using a b c d e unfolding f by (auto simp: extract_textResponse)
qed

section \<open>Properties of the orchestrator\<close>

text \<open>
  Claim C9, as stated, fails in two parts. Only \<open>handleUserInput\<close> checks
  \<open>isInitialized\<close> before working: \<open>shutdown\<close>, \<open>getStatus\<close> and \<open>clearHistory\<close> on an
  orchestrator that was never initialised, or was shut down, return normally. And
  \<open>shutdown\<close> leaves the buses alone: after \<open>initialize\<close> and one user input that makes
  the main agent send a tool-execution request, the main agent's bus holds that request
  and the tools agent's bus the status update with which the tools agent starts on it,
  and both still hold them after \<open>shutdown\<close>.
\<close>

theorem lifecycle_counterexample:
  "initialize (replyingEnv ''ok'') ''s1'' (newOrchestrator idleScheduler)
     = (Inr (), readyOrchestrator)
   \<and> handleUserInput (replyingEnv ''ok'') ''read file a.txt'' readyOrchestrator freshWorld
     = (Inr coordinatingReply, talkingOrchestrator, \<lparr>llmCalls = 1, clockReads = 4\<rparr>)
   \<and> messageHistory (mainAgentBus talkingOrchestrator) = [readFileRequest]
   \<and> messageHistory (toolsAgentBus talkingOrchestrator) = [startingUpdate]
   \<and> messageHistory (mainAgentBus (shutdown talkingOrchestrator)) = [readFileRequest]
   \<and> messageHistory (toolsAgentBus (shutdown talkingOrchestrator)) = [startingUpdate]
   \<and> shutdown (newOrchestrator idleScheduler) = newOrchestrator idleScheduler
   \<and> initialized (getStatus (newOrchestrator idleScheduler)) = False
   \<and> clearHistory (shutdown readyOrchestrator) = shutdown readyOrchestrator"
proof -
  have init: "initialize (replyingEnv ''ok'') ''s1'' (newOrchestrator idleScheduler)
     = (Inr (), readyOrchestrator)"
    by (simp add: initialize_def newOrchestrator_def replyingEnv_def readyOrchestrator_def
        sessionContext_def Let_def)
  have needs: "analyzeForToolExecution ''ok'' ''read file a.txt''"
    by (simp add: analyzeForToolExecution_def toolKeywords_def includesStr_def upt_rec
        toLowerCase_def lowerChar_def upperChars_def lowerChars_def)
  have main: "mainHandleUserInput (replyingEnv ''ok'') ''read file a.txt''
       (mainAgent readyOrchestrator) freshWorld
     = (Inr coordinatingReply, [readFileRequest], mainAgent readyOrchestrator,
        \<lparr>llmCalls = 1, clockReads = 2\<rparr>)"
    using needs
    by (simp add: mainHandleUserInput_def readyOrchestrator_def callGenerateContent_def
        replyingEnv_def extractResponseText_def textResponse_def modelContent_def
        createToolExecutionRequest_def stamp_def freshWorld_def readFileRequest_def
        sessionContext_def busCallback_def showNat_unfold digitChar_def Let_def)
  have update: "startToolExecutionRequest (replyingEnv ''ok'') (toolsAgent readyOrchestrator)
        \<lparr>llmCalls = 1, clockReads = 2\<rparr>
      = (None, [startingUpdate], \<lparr>llmCalls = 1, clockReads = 4\<rparr>)"
    by (simp add: startToolExecutionRequest_def sendStatusUpdate_def readyOrchestrator_def
        stamp_def replyingEnv_def busCallback_def startingUpdate_def showNat_unfold
        digitChar_def Let_def)
  have sent: "sendMessage (replyingEnv ''ok'') MAIN readFileRequest readyOrchestrator
        \<lparr>llmCalls = 1, clockReads = 2\<rparr>
      = (talkingOrchestrator, \<lparr>llmCalls = 1, clockReads = 4\<rparr>)"
  proof -
    have kind: "toAgent readFileRequest = TOOLS"
      "messageType readFileRequest = TOOL_EXECUTION_REQUEST"
      "toAgent startingUpdate = MAIN" "messageType startingUpdate = STATUS_UPDATE"
      by (simp_all add: readFileRequest_def startingUpdate_def)
    have agent: "toolsAgent (pushMessage MAIN readFileRequest readyOrchestrator)
        = toolsAgent readyOrchestrator"
      by (simp add: pushMessage_fields)
    show ?thesis
      unfolding sendMessage_def mainBusListener_def agent update
      using kind
      by (simp add: toolsBusListener_def pushMessage_def talkingOrchestrator_def
          readyOrchestrator_def newBus_def)
  qed
  have input: "handleUserInput (replyingEnv ''ok'') ''read file a.txt'' readyOrchestrator freshWorld
     = (Inr coordinatingReply, talkingOrchestrator, \<lparr>llmCalls = 1, clockReads = 4\<rparr>)"
  proof -
    have same: "readyOrchestrator\<lparr>mainAgent := mainAgent readyOrchestrator\<rparr> = readyOrchestrator"
      by simp
    have ready: "isInitialized readyOrchestrator"
      by (simp add: readyOrchestrator_def)
    show ?thesis
      unfolding handleUserInput_def main using ready sent by (simp add: same)
  qed
  have hist: "messageHistory (mainAgentBus talkingOrchestrator) = [readFileRequest]"
    "messageHistory (toolsAgentBus talkingOrchestrator) = [startingUpdate]"
    by (simp_all add: talkingOrchestrator_def)
  have kept: "messageHistory (mainAgentBus (shutdown talkingOrchestrator)) = [readFileRequest]"
    "messageHistory (toolsAgentBus (shutdown talkingOrchestrator)) = [startingUpdate]"
    using hist by (simp_all add: shutdown_def)
  have rest: "shutdown (newOrchestrator idleScheduler) = newOrchestrator idleScheduler"
    "initialized (getStatus (newOrchestrator idleScheduler)) = False"
    "clearHistory (shutdown readyOrchestrator) = shutdown readyOrchestrator"
    by (simp_all add: shutdown_def newOrchestrator_def getStatus_def clearHistory_def
        readyOrchestrator_def newBus_def)
  from init input hist kept rest show ?thesis by simp
qed

text \<open>
  Claim C9, amended: \<open>initialize\<close> on an initialised orchestrator throws "already
  initialized" and changes nothing; \<open>handleUserInput\<close> on an orchestrator that is not
  initialised (never initialised, or shut down) throws "not initialized" and changes
  nothing; a new orchestrator is not initialised, and neither is one after \<open>shutdown\<close>;
  \<open>shutdown\<close> of an initialised orchestrator makes both agents drop their context and
  their callback, and it leaves both buses, with their histories, as they are.
\<close>

theorem orchestrator_lifecycle:
  "(isInitialized orch
      \<longrightarrow> initialize env sid orch = (Inl (ErrorObj ''Agent orchestrator already initialized''), orch))
   \<and> (\<not> isInitialized orch
      \<longrightarrow> handleUserInput env userInput orch w
          = (Inl (ErrorObj ''Agent orchestrator not initialized''), orch, w))
   \<and> \<not> isInitialized (newOrchestrator sched)
   \<and> \<not> isInitialized (shutdown orch)
   \<and> (isInitialized orch
      \<longrightarrow> agentCtx (mainAgent (shutdown orch)) = None
        \<and> onMessageCallback (mainAgent (shutdown orch)) = None
        \<and> agentCtx (toolsAgent (shutdown orch)) = None
        \<and> onMessageCallback (toolsAgent (shutdown orch)) = None)
   \<and> mainAgentBus (shutdown orch) = mainAgentBus orch
   \<and> toolsAgentBus (shutdown orch) = toolsAgentBus orch"
  by (simp add: initialize_def handleUserInput_def shutdown_def newOrchestrator_def)

theorem orchestrator_lifecycle_witness:
  "isInitialized readyOrchestrator
   \<and> initialize (replyingEnv ''ok'') ''s2'' readyOrchestrator
       = (Inl (ErrorObj ''Agent orchestrator already initialized''), readyOrchestrator)
   \<and> \<not> isInitialized (shutdown readyOrchestrator)
   \<and> handleUserInput (replyingEnv ''ok'') ''hello'' (shutdown readyOrchestrator) freshWorld
       = (Inl (ErrorObj ''Agent orchestrator not initialized''), shutdown readyOrchestrator,
          freshWorld)
   \<and> agentCtx (mainAgent (shutdown readyOrchestrator)) = None
   \<and> agentCtx (toolsAgent (shutdown readyOrchestrator)) = None
   \<and> mainAgentBus (shutdown talkingOrchestrator) = mainAgentBus talkingOrchestrator"
proof -
  have ready: "isInitialized readyOrchestrator"
    by (simp add: readyOrchestrator_def)
  from orchestrator_lifecycle [of readyOrchestrator "replyingEnv ''ok''" "''s2''"]
  have one: "initialize (replyingEnv ''ok'') ''s2'' readyOrchestrator
       = (Inl (ErrorObj ''Agent orchestrator already initialized''), readyOrchestrator)
     \<and> \<not> isInitialized (shutdown readyOrchestrator)
     \<and> agentCtx (mainAgent (shutdown readyOrchestrator)) = None
     \<and> agentCtx (toolsAgent (shutdown readyOrchestrator)) = None"
    using ready by simp
  from orchestrator_lifecycle
    [of "shutdown readyOrchestrator" "replyingEnv ''ok''" "''s2''" "''hello''" freshWorld]
  have two: "handleUserInput (replyingEnv ''ok'') ''hello'' (shutdown readyOrchestrator) freshWorld
       = (Inl (ErrorObj ''Agent orchestrator not initialized''), shutdown readyOrchestrator,
          freshWorld)"
    using one by simp
  from orchestrator_lifecycle [of talkingOrchestrator]
  have three: "mainAgentBus (shutdown talkingOrchestrator) = mainAgentBus talkingOrchestrator"
    by simp
  from ready one two three show ?thesis by simp
qed

text \<open>
  Claim C10: on an initialised orchestrator \<open>handleUserInput\<close> always returns a string and
  never throws: when the main agent's \<open>handleUserInput\<close> throws, the string is \<open>Error: \<close>
  followed by the error's message (by \<open>Unknown error\<close> when the value thrown is not an
  \<open>Error\<close>), and otherwise it is the main agent's reply.
\<close>

theorem handleUserInput_catches:
  assumes "isInitialized orch"
  shows "\<exists>reply orch' w'. handleUserInput env userInput orch w = (Inr reply, orch', w')
      \<and> reply = (case fst (mainHandleUserInput env userInput (mainAgent orch) w) of
                   Inl e \<Rightarrow> ''Error: '' @ errorMessage e
                 | Inr response \<Rightarrow> response)
      \<and> errorMessage (ErrorObj m) = m"
proof -
  obtain res sent agent1 w1 where
    "mainHandleUserInput env userInput (mainAgent orch) w = (res, sent, agent1, w1)"
    by (metis prod_cases4)
  with assms show ?thesis
    by (cases res) (simp_all add: handleUserInput_def split: prod.splits)
qed

theorem handleUserInput_catches_witness:
  "isInitialized readyOrchestrator
   \<and> (\<exists>orch' w'. handleUserInput failingEnv ''hello'' readyOrchestrator freshWorld
         = (Inr ''Error: quota exceeded'', orch', w'))"
proof -
  have ready: "isInitialized readyOrchestrator"
    by (simp add: readyOrchestrator_def)
  from handleUserInput_catches [OF ready, of failingEnv "''hello''" freshWorld]
  show ?thesis
    unfolding main_fails using ready by auto
qed

end
